theory Spec2Isabelle
  imports Main "HOL-Library.Word"
begin

unbundle bit_operations_syntax

section \<open>Winote: the native pointer-type bridge of the Windows runner\<close>

text \<open>
  A shallow embedding of \<^verbatim>\<open>windows/runner/flutter_window.cpp\<close> (with the members
  declared in \<^verbatim>\<open>flutter_window.h\<close>): the capability prober
  \<^verbatim>\<open>InitializePointerApi\<close>, the classifier \<^verbatim>\<open>HandlePointerMessage\<close>, the forwarder
  \<^verbatim>\<open>SendPointerTypeToDart\<close> and the two interception points
  \<^verbatim>\<open>FlutterWindow::MessageHandler\<close> and \<^verbatim>\<open>FlutterViewSubclassProc\<close>.

  The file-scope statics and the members of the single \<^verbatim>\<open>FlutterWindow\<close> are one
  record that every function takes and returns. What the operating system and the
  hosted runtime answer is not code of the repository: it is a second record, given
  afresh to every call. A call into the platform or the runtime reads and writes
  nothing of the first record.
\<close>

subsection \<open>Machine types and the constants of the source\<close>

text \<open>
  \<^verbatim>\<open>UINT\<close>, \<^verbatim>\<open>UINT32\<close> and \<^verbatim>\<open>DWORD\<close> are 32 bits wide, \<^verbatim>\<open>WORD\<close> is 16; \<^verbatim>\<open>HWND\<close>,
  \<^verbatim>\<open>WPARAM\<close>, \<^verbatim>\<open>LPARAM\<close>, \<^verbatim>\<open>LRESULT\<close> and \<^verbatim>\<open>WNDPROC\<close> have pointer width, 64 bits
  here.
\<close>

type_synonym u16 = "16 word"
type_synonym u32 = "32 word"
type_synonym u64 = "64 word"

text \<open>Lines 50-64: the pointer messages (\<^verbatim>\<open>UINT\<close>).\<close>

definition WM_POINTERUPDATE :: u32 where "WM_POINTERUPDATE = 0x0245"
definition WM_POINTERDOWN :: u32 where "WM_POINTERDOWN = 0x0246"
definition WM_POINTERUP :: u32 where "WM_POINTERUP = 0x0247"
definition WM_POINTERENTER :: u32 where "WM_POINTERENTER = 0x0249"
definition WM_POINTERLEAVE :: u32 where "WM_POINTERLEAVE = 0x024A"

text \<open>\<^verbatim>\<open>WM_FONTCHANGE\<close> is a constant of the Windows SDK (\<^verbatim>\<open>winuser.h\<close>).\<close>

definition WM_FONTCHANGE :: u32 where "WM_FONTCHANGE = 0x001D"

text \<open>Lines 67-73: the pointer input types (\<^verbatim>\<open>POINTER_INPUT_TYPE\<close>, a \<^verbatim>\<open>DWORD\<close>).\<close>

definition PT_POINTER :: u32 where "PT_POINTER = 1"
definition PT_TOUCH :: u32 where "PT_TOUCH = 2"
definition PT_PEN :: u32 where "PT_PEN = 3"
definition PT_MOUSE :: u32 where "PT_MOUSE = 4"
definition PT_TOUCHPAD :: u32 where "PT_TOUCHPAD = 5"

text \<open>
  The SDK's \<^verbatim>\<open>LOWORD(l)\<close> is \<^verbatim>\<open>((WORD)(((DWORD_PTR)(l)) & 0xffff))\<close>; line 77 makes
  \<^verbatim>\<open>GET_POINTERID_WPARAM\<close> that macro, and line 302 widens the result to \<^verbatim>\<open>UINT32\<close>.
\<close>

definition LOWORD :: "u64 \<Rightarrow> u16" where
  "LOWORD l = ucast (l AND 0xffff)"

definition GET_POINTERID_WPARAM :: "u64 \<Rightarrow> u32" where
  "GET_POINTERID_WPARAM wParam = ucast (LOWORD wParam)"

subsection \<open>Data: the log, the channel, the state, the environment\<close>

text \<open>
  A line handed to \<^verbatim>\<open>LogToFile\<close> is the sequence of items streamed into it
  (\<^verbatim>\<open>oss << "text" << number\<close>); a plain literal is a single \<open>Txt\<close>.
\<close>

datatype frag = Txt string | Num u32

type_synonym log_line = "frag list"

text \<open>
  \<^verbatim>\<open>flutter::EncodableValue\<close>, as far as the bridge builds it: a string, or an \<^verbatim>\<open>int\<close>
  made by \<^verbatim>\<open>static_cast<int>\<close> from a \<^verbatim>\<open>UINT32\<close> (the two's-complement reading).
  An \<^verbatim>\<open>EncodableMap\<close> is a \<^verbatim>\<open>std::map\<close> between such values.
\<close>

datatype EncodableValue = EString string | EInt int

type_synonym EncodableMap = "EncodableValue \<rightharpoonup> EncodableValue"

definition static_cast_int :: "u32 \<Rightarrow> int" where
  "static_cast_int x = sint x"

text \<open>One call of \<^verbatim>\<open>pointer_channel_->InvokeMethod(name, arguments)\<close>.\<close>

record method_call =
  method_name :: string
  arguments :: EncodableMap

text \<open>
  The process state. A function pointer or \<^verbatim>\<open>unique_ptr\<close> whose target is not code of
  this file is kept as the flag ``is not null''. The stream \<^verbatim>\<open>g_log_file\<close> is the flag
  \<open>g_log_file_is_open\<close> together with \<open>log_file\<close>, the lines written to the file,
  oldest first; \<open>channel_out\<close> is the sequence of \<^verbatim>\<open>InvokeMethod\<close> calls made on the
  channel, oldest first. The members \<^verbatim>\<open>flutter_controller_\<close>,
  \<^verbatim>\<open>pointer_channel_\<close> and \<^verbatim>\<open>pointer_type_cache_\<close> lose their final underscore,
  which Isabelle does not allow in a name.
\<close>

record window =
  g_log_initialized :: bool
  g_log_file_is_open :: bool
  g_pointer_api_initialized :: bool
  g_GetPointerType :: bool
  g_GetPointerPenInfo :: bool
  g_flutter_window :: bool
  g_original_flutter_view_proc :: "u64 option"
  flutter_controller :: bool
  pointer_channel :: bool
  pointer_type_cache :: "u32 \<rightharpoonup> u32"
  log_file :: "log_line list"
  channel_out :: "method_call list"

text \<open>
  What the platform answers during one call. \<open>dupenv_s\<close> is the value of an
  environment variable, if it is set, and \<open>ofstream_open\<close> says whether opening the
  file of that path for writing succeeds. \<open>GetPointerType\<close> and
  \<open>GetPointerPenInfo\<close> are \<open>None\<close> where the OS function returns \<^verbatim>\<open>FALSE\<close>, and
  otherwise the value written to \<^verbatim>\<open>*pointerType\<close>, respectively to
  \<^verbatim>\<open>penInfo.pressure\<close>. \<open>GetModuleHandleA\<close> and \<open>GetProcAddress\<close> say whether the
  handle, respectively the address, is not null. \<open>HandleTopLevelWindowProc\<close> is the
  hosted runtime's \<^verbatim>\<open>std::optional<LRESULT>\<close>.
\<close>

record os_env =
  dupenv_s :: "string \<Rightarrow> string option"
  ofstream_open :: "string \<Rightarrow> bool"
  GetModuleHandleA :: "string \<Rightarrow> bool"
  GetProcAddress :: "string \<Rightarrow> bool"
  GetPointerType :: "u32 \<Rightarrow> u32 option"
  GetPointerPenInfo :: "u32 \<Rightarrow> u32 option"
  GetLastError :: u32
  CallWindowProc :: "u64 \<Rightarrow> u64 \<Rightarrow> u32 \<Rightarrow> u64 \<Rightarrow> u64 \<Rightarrow> u64"
  DefWindowProc :: "u64 \<Rightarrow> u32 \<Rightarrow> u64 \<Rightarrow> u64 \<Rightarrow> u64"
  HandleTopLevelWindowProc :: "u64 \<Rightarrow> u32 \<Rightarrow> u64 \<Rightarrow> u64 \<Rightarrow> u64 option"
  Win32Window_MessageHandler :: "u64 \<Rightarrow> u32 \<Rightarrow> u64 \<Rightarrow> u64 \<Rightarrow> u64"

subsection \<open>Logging and the capability prober\<close>

text \<open>
  Lines 16-29. The first call looks up \<^verbatim>\<open>USERPROFILE\<close> and, when it is set, opens
  \<^verbatim>\<open>\Desktop\winote_native_log.txt\<close> under it, truncating the file; every later call
  returns at once. The path separator is the character \<open>0x5C\<close>.
\<close>

definition log_path :: "string \<Rightarrow> string" where
  "log_path userProfile =
     userProfile @ [CHR 0x5C] @ ''Desktop'' @ [CHR 0x5C] @ ''winote_native_log.txt''"

definition InitLogFile :: "os_env \<Rightarrow> window \<Rightarrow> window" where
  "InitLogFile os w =
     (if g_log_initialized w then w
      else
        let w1 = w\<lparr>g_log_initialized := True\<rparr>
        in case dupenv_s os ''USERPROFILE'' of
             Some userProfile \<Rightarrow>
               if ofstream_open os (log_path userProfile)
               then w1\<lparr>g_log_file_is_open := True, log_file := []\<rparr>
               else w1
           | None \<Rightarrow> w1)"

text \<open>
  Lines 31-47: the line is written only if the file is open. What is written is the
  message; the time stamp that the source puts in front of it is left out.
\<close>

definition LogToFile :: "os_env \<Rightarrow> log_line \<Rightarrow> window \<Rightarrow> window" where
  "LogToFile os message w =
     (let w1 = InitLogFile os w
      in if g_log_file_is_open w1 then w1\<lparr>log_file := log_file w1 @ [message]\<rparr> else w1)"

text \<open>Lines 139-158.\<close>

definition InitializePointerApi :: "os_env \<Rightarrow> window \<Rightarrow> window" where
  "InitializePointerApi os w =
     (if g_pointer_api_initialized w then w
      else
        let w1 = LogToFile os [Txt ''InitializePointerApi: Starting...'']
                   (w\<lparr>g_pointer_api_initialized := True\<rparr>)
        in if GetModuleHandleA os ''user32.dll'' then
             let w2 = w1\<lparr>g_GetPointerType := GetProcAddress os ''GetPointerType'',
                         g_GetPointerPenInfo := GetProcAddress os ''GetPointerPenInfo''\<rparr>
             in if g_GetPointerType w2 \<and> g_GetPointerPenInfo w2
                then LogToFile os [Txt ''InitializePointerApi: Pointer API initialized successfully''] w2
                else LogToFile os [Txt ''InitializePointerApi: Pointer API not available''] w2
           else LogToFile os [Txt ''InitializePointerApi: Failed to get user32.dll handle''] w1)"

text \<open>
  The statics at process start (lines 13-14, 85-93) with the members' initial values
  (\<^verbatim>\<open>flutter_window.h\<close>), and the constructor (lines 160-164).
\<close>

definition process_start :: window where
  "process_start =
     \<lparr>g_log_initialized = False, g_log_file_is_open = False,
      g_pointer_api_initialized = False, g_GetPointerType = False,
      g_GetPointerPenInfo = False, g_flutter_window = False,
      g_original_flutter_view_proc = None, flutter_controller = False,
      pointer_channel = False, pointer_type_cache = Map.empty,
      log_file = [], channel_out = []\<rparr>"

definition FlutterWindow_ctor :: "os_env \<Rightarrow> window \<Rightarrow> window" where
  "FlutterWindow_ctor os w = (InitializePointerApi os w)\<lparr>g_flutter_window := True\<rparr>"

subsection \<open>The forwarder and the classifier\<close>

text \<open>Lines 340-360.\<close>

definition SendPointerTypeToDart :: "os_env \<Rightarrow> u32 \<Rightarrow> u32 \<Rightarrow> u32 \<Rightarrow> window \<Rightarrow> window" where
  "SendPointerTypeToDart os pointerId pointerType pressure w =
     (if \<not> pointer_channel w
      then LogToFile os [Txt ''SendPointerTypeToDart: pointer_channel_ is null!''] w
      else
        let args = Map.empty(EString ''pointerId'' \<mapsto> EInt (static_cast_int pointerId));
            args = args(EString ''pointerType'' \<mapsto> EInt (static_cast_int pointerType));
            args = args(EString ''pressure'' \<mapsto> EInt (static_cast_int pressure));
            w1 = LogToFile os [Txt ''SendPointerTypeToDart: Sending pointer '', Num pointerId,
                            Txt '', type '', Num pointerType,
                            Txt '', pressure '', Num pressure, Txt '' to Dart''] w
        in w1\<lparr>channel_out := channel_out w1 @
                 [\<lparr>method_name = ''onPointerTypeDetected'', arguments = args\<rparr>]\<rparr>)"

text \<open>Lines 321-323.\<close>

definition typeStr :: "u32 \<Rightarrow> string" where
  "typeStr pointerType =
     (if pointerType = PT_PEN then ''PEN''
      else if pointerType = PT_TOUCH then ''TOUCH''
      else if pointerType = PT_MOUSE then ''MOUSE'' else ''OTHER'')"

text \<open>Lines 309-317: the pressure read after a successful type query.\<close>

definition pen_pressure :: "os_env \<Rightarrow> window \<Rightarrow> u32 \<Rightarrow> u32 \<Rightarrow> u32" where
  "pen_pressure os w pointerId pointerType =
     (if pointerType = PT_PEN \<and> g_GetPointerPenInfo w
      then (case GetPointerPenInfo os pointerId of Some p \<Rightarrow> p | None \<Rightarrow> 0)
      else 0)"

text \<open>Lines 296-338.\<close>

definition HandlePointerMessage :: "os_env \<Rightarrow> u32 \<Rightarrow> u64 \<Rightarrow> u64 \<Rightarrow> window \<Rightarrow> window" where
  "HandlePointerMessage os message wparam lparam w =
     (if \<not> g_GetPointerType w
      then LogToFile os [Txt ''HandlePointerMessage: g_GetPointerType is null!''] w
      else
        let pointerId = GET_POINTERID_WPARAM wparam
        in case GetPointerType os pointerId of
             Some pointerType \<Rightarrow>
               let w1 = w\<lparr>pointer_type_cache := (pointer_type_cache w)(pointerId \<mapsto> pointerType)\<rparr>;
                   pressure = pen_pressure os w1 pointerId pointerType
               in if message = WM_POINTERDOWN
                  then SendPointerTypeToDart os pointerId pointerType pressure
                         (LogToFile os [Txt ''HandlePointerMessage: Pointer '', Num pointerId,
                                     Txt '' type: '', Txt (typeStr pointerType),
                                     Txt '' (value: '', Num pointerType,
                                     Txt ''), pressure: '', Num pressure] w1)
                  else w1
           | None \<Rightarrow>
               LogToFile os [Txt ''HandlePointerMessage: GetPointerType failed for pointer '',
                          Num pointerId, Txt '', error: '', Num (GetLastError os)] w)"

subsection \<open>The two interception points\<close>

text \<open>
  A handler hands the message on by calling the next procedure; the calls it makes are
  returned with the new state and the \<^verbatim>\<open>LRESULT\<close>. Line 289 dereferences
  \<^verbatim>\<open>flutter_controller_\<close>: on a null pointer that is a fault, not a result.
\<close>

datatype downstream =
    OriginalProc u64 u64 u32 u64 u64
  | DefaultProc u64 u32 u64 u64
  | HostedRuntime u64 u32 u64 u64
  | ReloadSystemFonts
  | BaseWindow u64 u32 u64 u64

datatype fault = NullDereference

type_synonym handled = "window \<times> downstream list \<times> (fault + u64)"

text \<open>Lines 244-246.\<close>

definition ProcessPointerMessage :: "os_env \<Rightarrow> u64 \<Rightarrow> u32 \<Rightarrow> u64 \<Rightarrow> u64 \<Rightarrow> window \<Rightarrow> window" where
  "ProcessPointerMessage os hwnd message wparam lparam w =
     HandlePointerMessage os message wparam lparam w"

text \<open>Lines 98-129: the \<^verbatim>\<open>switch\<close> of the child view's procedure.\<close>

definition subclass_switch :: "os_env \<Rightarrow> u64 \<Rightarrow> u32 \<Rightarrow> u64 \<Rightarrow> u64 \<Rightarrow> window \<Rightarrow> window" where
  "subclass_switch os hwnd message wparam lparam w =
     (let process = (\<lambda>w. if g_flutter_window w
                          then ProcessPointerMessage os hwnd message wparam lparam w else w)
      in if message = WM_POINTERDOWN
           then process (LogToFile os [Txt ''FlutterViewSubclassProc: WM_POINTERDOWN received''] w)
         else if message = WM_POINTERUP
           then process (LogToFile os [Txt ''FlutterViewSubclassProc: WM_POINTERUP received''] w)
         else if message = WM_POINTERUPDATE
           then process w
         else if message = WM_POINTERENTER
           then process (LogToFile os [Txt ''FlutterViewSubclassProc: WM_POINTERENTER received''] w)
         else if message = WM_POINTERLEAVE
           then process (LogToFile os [Txt ''FlutterViewSubclassProc: WM_POINTERLEAVE received''] w)
         else w)"

text \<open>Lines 96-136.\<close>

definition FlutterViewSubclassProc :: "os_env \<Rightarrow> u64 \<Rightarrow> u32 \<Rightarrow> u64 \<Rightarrow> u64 \<Rightarrow> window \<Rightarrow> handled" where
  "FlutterViewSubclassProc os hwnd message wparam lparam w =
     (let w1 = subclass_switch os hwnd message wparam lparam w
      in case g_original_flutter_view_proc w1 of
           Some original \<Rightarrow>
             (w1, [OriginalProc original hwnd message wparam lparam],
              Inr (CallWindowProc os original hwnd message wparam lparam))
         | None \<Rightarrow>
             (w1, [DefaultProc hwnd message wparam lparam],
              Inr (DefWindowProc os hwnd message wparam lparam)))"

text \<open>Lines 262-275: the first \<^verbatim>\<open>switch\<close> of the top-level handler.\<close>

definition top_level_switch :: "os_env \<Rightarrow> u32 \<Rightarrow> u64 \<Rightarrow> u64 \<Rightarrow> window \<Rightarrow> window" where
  "top_level_switch os message wparam lparam w =
     (if message = WM_POINTERDOWN \<or> message = WM_POINTERUP \<or>
         message = WM_POINTERUPDATE \<or> message = WM_POINTERENTER
        then HandlePointerMessage os message wparam lparam w
      else if message = WM_POINTERLEAVE
        then let pointerId = GET_POINTERID_WPARAM wparam
             in w\<lparr>pointer_type_cache := (pointer_type_cache w)(pointerId := None)\<rparr>
      else w)"

text \<open>Lines 256-294.\<close>

definition MessageHandler :: "os_env \<Rightarrow> u64 \<Rightarrow> u32 \<Rightarrow> u64 \<Rightarrow> u64 \<Rightarrow> window \<Rightarrow> handled" where
  "MessageHandler os hwnd message wparam lparam w =
     (let w1 = top_level_switch os message wparam lparam w;
          base = BaseWindow hwnd message wparam lparam;
          base_result = Inr (Win32Window_MessageHandler os hwnd message wparam lparam)
      in if flutter_controller w1
         then (case HandleTopLevelWindowProc os hwnd message wparam lparam of
                 Some result \<Rightarrow> (w1, [HostedRuntime hwnd message wparam lparam], Inr result)
               | None \<Rightarrow>
                   if message = WM_FONTCHANGE
                   then (w1, [HostedRuntime hwnd message wparam lparam, ReloadSystemFonts, base],
                         base_result)
                   else (w1, [HostedRuntime hwnd message wparam lparam, base], base_result))
         else if message = WM_FONTCHANGE
           then (w1, [], Inl NullDereference)
         else (w1, [base], base_result))"

subsection \<open>Message sequences\<close>

text \<open>
  A delivery is one call of one of the two handlers, with what the platform answers
  during it. A sequence is handled in order and ends at a fault: \<open>run\<close> gives the
  state reached and the fault that ended the sequence, if any.
\<close>

datatype path = TopLevel | ChildView

record delivery =
  via :: path
  env :: os_env
  hwnd_of :: u64
  message_of :: u32
  wparam_of :: u64
  lparam_of :: u64

definition deliver :: "delivery \<Rightarrow> window \<Rightarrow> handled" where
  "deliver d w =
     (case via d of
        TopLevel \<Rightarrow> MessageHandler (env d) (hwnd_of d) (message_of d) (wparam_of d) (lparam_of d) w
      | ChildView \<Rightarrow>
          FlutterViewSubclassProc (env d) (hwnd_of d) (message_of d) (wparam_of d) (lparam_of d) w)"

fun run :: "delivery list \<Rightarrow> window \<Rightarrow> window \<times> fault option" where
  "run [] w = (w, None)"
| "run (d # ds) w =
     (case deliver d w of
        (w1, _, Inl f) \<Rightarrow> (w1, Some f)
      | (w1, _, Inr _) \<Rightarrow> run ds w1)"

text \<open>The classifier alone, called once per message of a sequence.\<close>

fun classify_all :: "(os_env \<times> u32 \<times> u64 \<times> u64) list \<Rightarrow> window \<Rightarrow> window" where
  "classify_all [] w = w"
| "classify_all ((os, message, wparam, lparam) # ms) w =
     classify_all ms (HandlePointerMessage os message wparam lparam w)"


subsection \<open>Reading a sequence\<close>

text \<open>
  The identifier a delivery carries; a delivery that the top-level handler hands to
  the classifier and whose type query for \<open>x\<close> succeeds; a pointer-leave for \<open>x\<close>.
\<close>

definition pointer_of :: "delivery \<Rightarrow> u32" where
  "pointer_of d = GET_POINTERID_WPARAM (wparam_of d)"

definition classifies :: "u32 \<Rightarrow> delivery \<Rightarrow> bool" where
  "classifies x d \<longleftrightarrow>
     pointer_of d = x \<and>
     (message_of d = WM_POINTERDOWN \<or> message_of d = WM_POINTERUP \<or>
      message_of d = WM_POINTERUPDATE \<or> message_of d = WM_POINTERENTER) \<and>
     GetPointerType (env d) x \<noteq> None"

definition leaves :: "u32 \<Rightarrow> delivery \<Rightarrow> bool" where
  "leaves x d \<longleftrightarrow> pointer_of d = x \<and> message_of d = WM_POINTERLEAVE"

text \<open>
  The invariant of the specification's data model, in its words: an entry exists if
  and only if a begin (down) or update message for the identifier has been observed
  and no leave message for it has been observed since. \<open>seen\<close> is the answer before
  the sequence.
\<close>

fun contact_per_spec :: "u32 \<Rightarrow> bool \<Rightarrow> delivery list \<Rightarrow> bool" where
  "contact_per_spec x seen [] = seen"
| "contact_per_spec x seen (d # ds) =
     contact_per_spec x
       (if leaves x d then False
        else if pointer_of d = x \<and>
                (message_of d = WM_POINTERDOWN \<or> message_of d = WM_POINTERUPDATE) then True
        else seen) ds"

subsection \<open>Reading the channel\<close>

text \<open>
  The call that lines 346-359 make for an event \<open>(pointerId, pointerType, pressure)\<close>,
  and the calls that one run of the classifier adds to the channel.
\<close>

definition classification_event :: "u32 \<Rightarrow> u32 \<Rightarrow> u32 \<Rightarrow> method_call" where
  "classification_event pointerId pointerType pressure =
     \<lparr>method_name = ''onPointerTypeDetected'',
      arguments = [EString ''pointerId'' \<mapsto> EInt (static_cast_int pointerId),
                   EString ''pointerType'' \<mapsto> EInt (static_cast_int pointerType),
                   EString ''pressure'' \<mapsto> EInt (static_cast_int pressure)]\<rparr>"

definition emitted :: "os_env \<Rightarrow> u32 \<Rightarrow> u64 \<Rightarrow> window \<Rightarrow> method_call list" where
  "emitted os message wparam w =
     (if message = WM_POINTERDOWN \<and> g_GetPointerType w \<and> pointer_channel w
      then (case GetPointerType os (GET_POINTERID_WPARAM wparam) of
              Some pointerType \<Rightarrow>
                [classification_event (GET_POINTERID_WPARAM wparam) pointerType
                   (pen_pressure os w (GET_POINTERID_WPARAM wparam) pointerType)]
            | None \<Rightarrow> [])
      else [])"

subsection \<open>Concrete platforms and states\<close>

text \<open>
  A platform with both entry points, on which pointer 5 is a pen pressed at 600,
  pointer 7 a mouse, pointer 9 a finger, and every other identifier is unknown to the
  type query, and on which the log file can be opened; an older platform that has
  neither entry point; and a platform like the first on which \<^verbatim>\<open>USERPROFILE\<close> is not
  set, so that no log file is ever opened.
\<close>

definition stylus_os :: os_env where
  "stylus_os =
     \<lparr>dupenv_s = (\<lambda>name. if name = ''USERPROFILE'' then Some ''C:'' else None),
      ofstream_open = (\<lambda>path. True),
      GetModuleHandleA = (\<lambda>name. name = ''user32.dll''),
      GetProcAddress = (\<lambda>name. name = ''GetPointerType'' \<or> name = ''GetPointerPenInfo''),
      GetPointerType = (\<lambda>pointerId. if pointerId = 5 then Some PT_PEN
                                      else if pointerId = 7 then Some PT_MOUSE
                                      else if pointerId = 9 then Some PT_TOUCH else None),
      GetPointerPenInfo = (\<lambda>pointerId. if pointerId = 5 then Some 600 else None),
      GetLastError = 87,
      CallWindowProc = (\<lambda>original hwnd message wparam lparam. 0),
      DefWindowProc = (\<lambda>hwnd message wparam lparam. 0),
      HandleTopLevelWindowProc = (\<lambda>hwnd message wparam lparam. None),
      Win32Window_MessageHandler = (\<lambda>hwnd message wparam lparam. 0)\<rparr>"

definition legacy_os :: os_env where
  "legacy_os = stylus_os\<lparr>GetProcAddress := (\<lambda>name. False)\<rparr>"

definition unlogged_os :: os_env where
  "unlogged_os = stylus_os\<lparr>dupenv_s := (\<lambda>name. None)\<rparr>"

text \<open>
  The window right after its constructor (no controller, no channel yet), on the
  first and on the third platform, and after \<^verbatim>\<open>OnCreate\<close> has made the controller and
  the channel and subclassed the child view.
\<close>

definition constructed_window :: window where
  "constructed_window = FlutterWindow_ctor stylus_os process_start"

definition unlogged_window :: window where
  "unlogged_window = FlutterWindow_ctor unlogged_os process_start"

definition ready_window :: window where
  "ready_window =
     constructed_window\<lparr>flutter_controller := True, pointer_channel := True,
                        g_original_flutter_view_proc := Some 0x7FF6\<rparr>"

text \<open>A pointer message through the top-level handler, and through the child view.\<close>

definition top_level :: "os_env \<Rightarrow> u32 \<Rightarrow> u64 \<Rightarrow> delivery" where
  "top_level os message wparam =
     \<lparr>via = TopLevel, env = os, hwnd_of = 0x1A0, message_of = message,
      wparam_of = wparam, lparam_of = 0\<rparr>"

definition child_view :: "os_env \<Rightarrow> u32 \<Rightarrow> u64 \<Rightarrow> delivery" where
  "child_view os message wparam =
     \<lparr>via = ChildView, env = os, hwnd_of = 0x2B0, message_of = message,
      wparam_of = wparam, lparam_of = 0\<rparr>"

section \<open>Properties\<close>

subsection \<open>What the functions leave alone\<close>

lemma InitLogFile_fields:
  "g_pointer_api_initialized (InitLogFile os w) = g_pointer_api_initialized w"
  "g_GetPointerType (InitLogFile os w) = g_GetPointerType w"
  "g_GetPointerPenInfo (InitLogFile os w) = g_GetPointerPenInfo w"
  "g_flutter_window (InitLogFile os w) = g_flutter_window w"
  "g_original_flutter_view_proc (InitLogFile os w) = g_original_flutter_view_proc w"
  "flutter_controller (InitLogFile os w) = flutter_controller w"
  "pointer_channel (InitLogFile os w) = pointer_channel w"
  "pointer_type_cache (InitLogFile os w) = pointer_type_cache w"
  "channel_out (InitLogFile os w) = channel_out w"
  by (simp_all add: InitLogFile_def Let_def split: option.split)

lemma InitLogFile_done: "g_log_initialized w \<Longrightarrow> InitLogFile os w = w"
  by (simp add: InitLogFile_def)

lemma LogToFile_fields:
  "g_GetPointerType (LogToFile os m w) = g_GetPointerType w"
  "pointer_channel (LogToFile os m w) = pointer_channel w"
  "pointer_type_cache (LogToFile os m w) = pointer_type_cache w"
  "channel_out (LogToFile os m w) = channel_out w"
  by (simp_all add: LogToFile_def InitLogFile_fields Let_def)

lemma LogToFile_more_fields:
  "g_pointer_api_initialized (LogToFile os m w) = g_pointer_api_initialized w"
  "g_GetPointerPenInfo (LogToFile os m w) = g_GetPointerPenInfo w"
  "g_flutter_window (LogToFile os m w) = g_flutter_window w"
  "g_original_flutter_view_proc (LogToFile os m w) = g_original_flutter_view_proc w"
  "flutter_controller (LogToFile os m w) = flutter_controller w"
  by (simp_all add: LogToFile_def InitLogFile_fields Let_def)

text \<open>Logging commutes with every write to a field that is not part of the log.\<close>

lemma InitLogFile_cache:
  "InitLogFile os (w\<lparr>pointer_type_cache := c\<rparr>) = (InitLogFile os w)\<lparr>pointer_type_cache := c\<rparr>"
  by (simp add: InitLogFile_def Let_def split: option.split)

lemma LogToFile_cache:
  "LogToFile os m (w\<lparr>pointer_type_cache := c\<rparr>) = (LogToFile os m w)\<lparr>pointer_type_cache := c\<rparr>"
  by (simp add: LogToFile_def InitLogFile_cache Let_def)

lemma LogToFile_open:
  assumes "g_log_initialized w"
  shows "LogToFile os m w =
           (if g_log_file_is_open w then w\<lparr>log_file := log_file w @ [m]\<rparr> else w)"
  using assms by (simp add: LogToFile_def InitLogFile_done)

lemma Send_channel:
  "channel_out (SendPointerTypeToDart os i t p w) =
     channel_out w @ (if pointer_channel w then [classification_event i t p] else [])"
  by (simp add: SendPointerTypeToDart_def classification_event_def LogToFile_fields Let_def)

lemma Send_fields:
  "g_GetPointerType (SendPointerTypeToDart os i t p w) = g_GetPointerType w"
  "g_GetPointerPenInfo (SendPointerTypeToDart os i t p w) = g_GetPointerPenInfo w"
  "g_flutter_window (SendPointerTypeToDart os i t p w) = g_flutter_window w"
  "g_original_flutter_view_proc (SendPointerTypeToDart os i t p w) = g_original_flutter_view_proc w"
  "flutter_controller (SendPointerTypeToDart os i t p w) = flutter_controller w"
  "pointer_channel (SendPointerTypeToDart os i t p w) = pointer_channel w"
  "pointer_type_cache (SendPointerTypeToDart os i t p w) = pointer_type_cache w"
  by (simp_all add: SendPointerTypeToDart_def LogToFile_fields LogToFile_more_fields Let_def)

lemma pen_pressure_cache:
  "pen_pressure os (w\<lparr>pointer_type_cache := c\<rparr>) i t = pen_pressure os w i t"
  by (simp add: pen_pressure_def)

lemma HPM_channel:
  "channel_out (HandlePointerMessage os message wparam lparam w) =
     channel_out w @ emitted os message wparam w"
  by (simp add: HandlePointerMessage_def emitted_def Send_channel LogToFile_fields Let_def
        pen_pressure_cache split: option.split)

lemma HPM_fields:
  "g_GetPointerType (HandlePointerMessage os message wparam lparam w) = g_GetPointerType w"
  "g_GetPointerPenInfo (HandlePointerMessage os message wparam lparam w) = g_GetPointerPenInfo w"
  "g_flutter_window (HandlePointerMessage os message wparam lparam w) = g_flutter_window w"
  "g_original_flutter_view_proc (HandlePointerMessage os message wparam lparam w) =
     g_original_flutter_view_proc w"
  "flutter_controller (HandlePointerMessage os message wparam lparam w) = flutter_controller w"
  "pointer_channel (HandlePointerMessage os message wparam lparam w) = pointer_channel w"
  by (simp_all add: HandlePointerMessage_def Send_fields LogToFile_fields
        LogToFile_more_fields Let_def split: option.split)

lemma HPM_cache:
  "pointer_type_cache (HandlePointerMessage os message wparam lparam w) =
     (if g_GetPointerType w
      then (case GetPointerType os (GET_POINTERID_WPARAM wparam) of
              Some pointerType \<Rightarrow> (pointer_type_cache w)(GET_POINTERID_WPARAM wparam \<mapsto> pointerType)
            | None \<Rightarrow> pointer_type_cache w)
      else pointer_type_cache w)"
  by (simp add: HandlePointerMessage_def Send_fields LogToFile_fields Let_def
        split: option.split)

lemma emitted_empty_iff:
  "emitted os message wparam w = [] \<longleftrightarrow>
     \<not> (message = WM_POINTERDOWN \<and> g_GetPointerType w \<and> pointer_channel w \<and>
        GetPointerType os (GET_POINTERID_WPARAM wparam) \<noteq> None)"
  by (auto simp: emitted_def split: option.splits)

lemma emitted_length: "length (emitted os message wparam w) \<le> 1"
  by (simp add: emitted_def split: option.split)

lemma classify_all_channel:
  "\<exists>evs. channel_out (classify_all ms w) = channel_out w @ evs \<and>
     (evs \<noteq> [] \<longleftrightarrow> g_GetPointerType w \<and> pointer_channel w \<and>
        (\<exists>(os, message, wparam, lparam) \<in> set ms.
           message = WM_POINTERDOWN \<and> GetPointerType os (GET_POINTERID_WPARAM wparam) \<noteq> None))"
proof (induction ms w rule: classify_all.induct)
  case (1 w)
  show ?case by simp
next
  case (2 os message wparam lparam ms w)
  let ?w1 = "HandlePointerMessage os message wparam lparam w"
  let ?P = "\<lambda>(os, message, wparam, lparam).
              message = WM_POINTERDOWN \<and> GetPointerType os (GET_POINTERID_WPARAM wparam) \<noteq> None"
  from 2 obtain evs where
    evs: "channel_out (classify_all ms ?w1) = channel_out ?w1 @ evs"
    and ne: "evs \<noteq> [] \<longleftrightarrow> g_GetPointerType ?w1 \<and> pointer_channel ?w1 \<and> Bex (set ms) ?P"
    by blast
  have here: "emitted os message wparam w \<noteq> [] \<longleftrightarrow>
      g_GetPointerType w \<and> pointer_channel w \<and> ?P (os, message, wparam, lparam)"
    by (simp add: emitted_empty_iff) blast
  have "channel_out (classify_all ((os, message, wparam, lparam) # ms) w) =
          channel_out w @ (emitted os message wparam w @ evs)"
    using evs by (simp add: HPM_channel)
  moreover have "emitted os message wparam w @ evs \<noteq> [] \<longleftrightarrow>
      g_GetPointerType w \<and> pointer_channel w \<and>
        Bex (set ((os, message, wparam, lparam) # ms)) ?P"
    using ne here unfolding HPM_fields by simp blast
  ultimately show ?case by blast
qed

subsection \<open>Evaluating the concrete platforms and states\<close>

lemma pointer_id_5: "GET_POINTERID_WPARAM 5 = 5"
  by (simp add: GET_POINTERID_WPARAM_def LOWORD_def)

lemma pointer_id_3: "GET_POINTERID_WPARAM 3 = 3"
  by (simp add: GET_POINTERID_WPARAM_def LOWORD_def)

lemma constructed_window_eq:
  "constructed_window =
     \<lparr>g_log_initialized = True, g_log_file_is_open = True,
      g_pointer_api_initialized = True, g_GetPointerType = True,
      g_GetPointerPenInfo = True, g_flutter_window = True,
      g_original_flutter_view_proc = None, flutter_controller = False,
      pointer_channel = False, pointer_type_cache = Map.empty,
      log_file = [[Txt ''InitializePointerApi: Starting...''],
                  [Txt ''InitializePointerApi: Pointer API initialized successfully'']],
      channel_out = []\<rparr>"
  by (simp add: constructed_window_def FlutterWindow_ctor_def InitializePointerApi_def
        process_start_def stylus_os_def LogToFile_def InitLogFile_def Let_def)

lemma unlogged_window_eq:
  "unlogged_window =
     \<lparr>g_log_initialized = True, g_log_file_is_open = False,
      g_pointer_api_initialized = True, g_GetPointerType = True,
      g_GetPointerPenInfo = True, g_flutter_window = True,
      g_original_flutter_view_proc = None, flutter_controller = False,
      pointer_channel = False, pointer_type_cache = Map.empty,
      log_file = [], channel_out = []\<rparr>"
  by (simp add: unlogged_window_def unlogged_os_def FlutterWindow_ctor_def
        InitializePointerApi_def process_start_def stylus_os_def LogToFile_def
        InitLogFile_def Let_def)

lemma stylus_os_answers:
  "GetPointerType stylus_os 5 = Some PT_PEN"
  "GetPointerType stylus_os 3 = None"
  "GetPointerPenInfo stylus_os 5 = Some 600"
  "GetLastError stylus_os = 87"
  by (simp_all add: stylus_os_def)

lemma message_codes_distinct:
  "WM_POINTERDOWN \<noteq> WM_POINTERUP" "WM_POINTERDOWN \<noteq> WM_POINTERUPDATE"
  "WM_POINTERDOWN \<noteq> WM_POINTERENTER" "WM_POINTERDOWN \<noteq> WM_POINTERLEAVE"
  "WM_POINTERUP \<noteq> WM_POINTERUPDATE" "WM_POINTERUP \<noteq> WM_POINTERENTER"
  "WM_POINTERUP \<noteq> WM_POINTERLEAVE" "WM_POINTERUPDATE \<noteq> WM_POINTERENTER"
  "WM_POINTERUPDATE \<noteq> WM_POINTERLEAVE" "WM_POINTERENTER \<noteq> WM_POINTERLEAVE"
  "WM_FONTCHANGE \<noteq> WM_POINTERDOWN" "WM_FONTCHANGE \<noteq> WM_POINTERUP"
  "WM_FONTCHANGE \<noteq> WM_POINTERUPDATE" "WM_FONTCHANGE \<noteq> WM_POINTERENTER"
  "WM_FONTCHANGE \<noteq> WM_POINTERLEAVE"
  by (simp_all add: WM_POINTERDOWN_def WM_POINTERUP_def WM_POINTERUPDATE_def
        WM_POINTERENTER_def WM_POINTERLEAVE_def WM_FONTCHANGE_def)

lemma ready_window_eq:
  "ready_window =
     \<lparr>g_log_initialized = True, g_log_file_is_open = True,
      g_pointer_api_initialized = True, g_GetPointerType = True,
      g_GetPointerPenInfo = True, g_flutter_window = True,
      g_original_flutter_view_proc = Some 0x7FF6, flutter_controller = True,
      pointer_channel = True, pointer_type_cache = Map.empty,
      log_file = [[Txt ''InitializePointerApi: Starting...''],
                  [Txt ''InitializePointerApi: Pointer API initialized successfully'']],
      channel_out = []\<rparr>"
  by (simp add: ready_window_def constructed_window_eq)

lemma pen_down_event:
  "channel_out (HandlePointerMessage stylus_os WM_POINTERDOWN 5 0 ready_window) =
     channel_out ready_window @ [classification_event 5 PT_PEN 600]"
  by (simp add: HPM_channel emitted_def pointer_id_5 stylus_os_answers ready_window_eq
        pen_pressure_def)

subsection \<open>One event, and the pressure it carries\<close>

lemma emitted_single:
  assumes "emitted os message wparam w = [ev]"
  obtains t where "GetPointerType os (GET_POINTERID_WPARAM wparam) = Some t"
    and "ev = classification_event (GET_POINTERID_WPARAM wparam) t
                (pen_pressure os w (GET_POINTERID_WPARAM wparam) t)"
proof (cases "GetPointerType os (GET_POINTERID_WPARAM wparam)")
  case None
  with assms show ?thesis by (simp add: emitted_def split: if_splits)
next
  case (Some t)
  with assms have "ev = classification_event (GET_POINTERID_WPARAM wparam) t
                (pen_pressure os w (GET_POINTERID_WPARAM wparam) t)"
    by (simp add: emitted_def split: if_splits)
  with Some show ?thesis by (rule that)
qed

lemma pen_pressure_nonzero:
  assumes "pen_pressure os w i t \<noteq> 0"
  shows "t = PT_PEN \<and> g_GetPointerPenInfo w \<and> GetPointerPenInfo os i = Some (pen_pressure os w i t)"
proof (cases "GetPointerPenInfo os i")
  case None
  with assms show ?thesis by (simp add: pen_pressure_def split: if_splits)
next
  case (Some q)
  with assms show ?thesis by (simp add: pen_pressure_def split: if_splits)
qed

lemma pen_pressure_zero:
  "t \<noteq> PT_PEN \<or> \<not> g_GetPointerPenInfo w \<or> GetPointerPenInfo os i = None
     \<Longrightarrow> pen_pressure os w i t = 0"
  by (cases "GetPointerPenInfo os i") (auto simp: pen_pressure_def)

subsection \<open>The two switches\<close>

lemmas WM_defs = WM_POINTERDOWN_def WM_POINTERUP_def WM_POINTERUPDATE_def
  WM_POINTERENTER_def WM_POINTERLEAVE_def WM_FONTCHANGE_def

lemma emitted_LogToFile:
  "emitted os message wparam (LogToFile os' l w) = emitted os message wparam w"
  by (auto simp: emitted_def pen_pressure_def LogToFile_fields LogToFile_more_fields
        split: option.split)

lemma emitted_not_down: "message \<noteq> WM_POINTERDOWN \<Longrightarrow> emitted os message wparam w = []"
  by (simp add: emitted_def)

lemma top_level_switch_channel:
  "channel_out (top_level_switch os message wparam lparam w) =
     channel_out w @ emitted os message wparam w"
proof -
  consider (classified) "message = WM_POINTERDOWN \<or> message = WM_POINTERUP \<or>
        message = WM_POINTERUPDATE \<or> message = WM_POINTERENTER"
    | (other) "\<not> (message = WM_POINTERDOWN \<or> message = WM_POINTERUP \<or>
        message = WM_POINTERUPDATE \<or> message = WM_POINTERENTER)"
    by blast
  then show ?thesis
  proof cases
    case classified
    then show ?thesis by (simp add: top_level_switch_def HPM_channel)
  next
    case other
    then have "emitted os message wparam w = []" by (simp add: emitted_not_down)
    with other show ?thesis by (simp add: top_level_switch_def Let_def)
  qed
qed

lemma process_channel:
  "channel_out (if g_flutter_window (LogToFile os l w)
                then ProcessPointerMessage os hwnd message wparam lparam (LogToFile os l w)
                else LogToFile os l w) =
     channel_out w @ (if g_flutter_window w then emitted os message wparam w else [])"
  by (simp add: ProcessPointerMessage_def HPM_channel LogToFile_fields LogToFile_more_fields
        emitted_LogToFile)

lemma subclass_switch_channel:
  "channel_out (subclass_switch os hwnd message wparam lparam w) =
     channel_out w @ (if g_flutter_window w then emitted os message wparam w else [])"
proof -
  consider "message = WM_POINTERDOWN" | "message = WM_POINTERUP" | "message = WM_POINTERUPDATE"
    | "message = WM_POINTERENTER" | "message = WM_POINTERLEAVE"
    | "message \<noteq> WM_POINTERDOWN \<and> message \<noteq> WM_POINTERUP \<and> message \<noteq> WM_POINTERUPDATE \<and>
       message \<noteq> WM_POINTERENTER \<and> message \<noteq> WM_POINTERLEAVE"
    by blast
  then show ?thesis
  proof cases
    case 1
    then show ?thesis
      by (simp add: subclass_switch_def process_channel)
  next
    case 2
    then show ?thesis
      using message_codes_distinct by (simp add: subclass_switch_def process_channel)
  next
    case 3
    then show ?thesis
      using message_codes_distinct
      by (simp add: subclass_switch_def ProcessPointerMessage_def HPM_channel)
  next
    case 4
    then show ?thesis
      using message_codes_distinct by (simp add: subclass_switch_def process_channel)
  next
    case 5
    then show ?thesis
      using message_codes_distinct by (simp add: subclass_switch_def process_channel)
  next
    case 6
    then show ?thesis
      by (simp add: subclass_switch_def emitted_not_down)
  qed
qed

lemma deliver_state:
  "fst (deliver d w) =
     (case via d of
        TopLevel \<Rightarrow> top_level_switch (env d) (message_of d) (wparam_of d) (lparam_of d) w
      | ChildView \<Rightarrow>
          subclass_switch (env d) (hwnd_of d) (message_of d) (wparam_of d) (lparam_of d) w)"
  by (simp add: deliver_def MessageHandler_def FlutterViewSubclassProc_def Let_def
        split: path.split option.split)

lemma deliver_channel:
  "channel_out (fst (deliver d w)) =
     channel_out w @
       (if via d = ChildView \<and> \<not> g_flutter_window w then []
        else emitted (env d) (message_of d) (wparam_of d) w)"
  by (cases "via d") (simp_all add: deliver_state top_level_switch_channel subclass_switch_channel)

lemma top_level_switch_flags:
  "g_GetPointerType (top_level_switch os message wparam lparam w) = g_GetPointerType w"
  "g_GetPointerPenInfo (top_level_switch os message wparam lparam w) = g_GetPointerPenInfo w"
  "g_flutter_window (top_level_switch os message wparam lparam w) = g_flutter_window w"
  "g_original_flutter_view_proc (top_level_switch os message wparam lparam w) =
     g_original_flutter_view_proc w"
  "flutter_controller (top_level_switch os message wparam lparam w) = flutter_controller w"
  "pointer_channel (top_level_switch os message wparam lparam w) = pointer_channel w"
  by (simp_all add: top_level_switch_def HPM_fields Let_def)

lemma subclass_switch_flags:
  "g_GetPointerType (subclass_switch os hwnd message wparam lparam w) = g_GetPointerType w"
  "g_GetPointerPenInfo (subclass_switch os hwnd message wparam lparam w) = g_GetPointerPenInfo w"
  "g_flutter_window (subclass_switch os hwnd message wparam lparam w) = g_flutter_window w"
  "g_original_flutter_view_proc (subclass_switch os hwnd message wparam lparam w) =
     g_original_flutter_view_proc w"
  "flutter_controller (subclass_switch os hwnd message wparam lparam w) = flutter_controller w"
  "pointer_channel (subclass_switch os hwnd message wparam lparam w) = pointer_channel w"
  by (simp_all add: subclass_switch_def ProcessPointerMessage_def HPM_fields LogToFile_fields
        LogToFile_more_fields Let_def)

lemma deliver_flags:
  "g_GetPointerType (fst (deliver d w)) = g_GetPointerType w"
  "g_GetPointerPenInfo (fst (deliver d w)) = g_GetPointerPenInfo w"
  "g_flutter_window (fst (deliver d w)) = g_flutter_window w"
  "g_original_flutter_view_proc (fst (deliver d w)) = g_original_flutter_view_proc w"
  "flutter_controller (fst (deliver d w)) = flutter_controller w"
  "pointer_channel (fst (deliver d w)) = pointer_channel w"
  by (cases "via d"; simp add: deliver_state top_level_switch_flags subclass_switch_flags)+

lemma run_Cons:
  "run (d # ds) w =
     (case snd (snd (deliver d w)) of
        Inl f \<Rightarrow> (fst (deliver d w), Some f)
      | Inr r \<Rightarrow> run ds (fst (deliver d w)))"
  by (simp split: prod.split sum.split)

lemma run_flags:
  "g_GetPointerType (fst (run ds w)) = g_GetPointerType w \<and>
   g_GetPointerPenInfo (fst (run ds w)) = g_GetPointerPenInfo w \<and>
   pointer_channel (fst (run ds w)) = pointer_channel w"
proof (induction ds arbitrary: w)
  case Nil
  show ?case by simp
next
  case (Cons d ds)
  show ?case
  proof (cases "snd (snd (deliver d w))")
    case (Inl f)
    then show ?thesis by (simp add: run_Cons deliver_flags del: run.simps)
  next
    case (Inr r)
    with Cons [of "fst (deliver d w)"] show ?thesis
      by (simp add: run_Cons deliver_flags del: run.simps)
  qed
qed

subsection \<open>The prober and the shape of a call\<close>

lemma Initialize_twice:
  "InitializePointerApi os' (InitializePointerApi os w) = InitializePointerApi os w"
proof -
  have "g_pointer_api_initialized (InitializePointerApi os w)"
    by (simp add: InitializePointerApi_def LogToFile_more_fields Let_def)
  then show ?thesis
    by (subst InitializePointerApi_def) simp
qed

lemma event_shape:
  "method_name (classification_event i t p) = ''onPointerTypeDetected'' \<and>
   dom (arguments (classification_event i t p)) =
     {EString ''pointerId'', EString ''pointerType'', EString ''pressure''} \<and>
   arguments (classification_event i t p) (EString ''pointerId'') = Some (EInt (sint i)) \<and>
   arguments (classification_event i t p) (EString ''pointerType'') = Some (EInt (sint t)) \<and>
   arguments (classification_event i t p) (EString ''pressure'') = Some (EInt (sint p))"
proof (intro conjI)
  show "method_name (classification_event i t p) = ''onPointerTypeDetected''"
    by (simp add: classification_event_def)
  show "dom (arguments (classification_event i t p)) =
     {EString ''pointerId'', EString ''pointerType'', EString ''pressure''}"
    unfolding classification_event_def by (simp add: insert_commute)
  show "arguments (classification_event i t p) (EString ''pointerId'') = Some (EInt (sint i))"
    by (simp add: classification_event_def static_cast_int_def)
  show "arguments (classification_event i t p) (EString ''pointerType'') = Some (EInt (sint t))"
    by (simp add: classification_event_def static_cast_int_def)
  show "arguments (classification_event i t p) (EString ''pressure'') = Some (EInt (sint p))"
    by (simp add: classification_event_def static_cast_int_def)
qed

subsection \<open>The cache never reaches the channel\<close>

lemma Send_cache:
  "SendPointerTypeToDart os i t p (w\<lparr>pointer_type_cache := c\<rparr>) =
     (SendPointerTypeToDart os i t p w)\<lparr>pointer_type_cache := c\<rparr>"
  by (simp add: SendPointerTypeToDart_def LogToFile_cache LogToFile_fields Let_def)

lemma HPM_cache_indep:
  "\<exists>c'. HandlePointerMessage os message wparam lparam (w\<lparr>pointer_type_cache := c\<rparr>) =
         (HandlePointerMessage os message wparam lparam w)\<lparr>pointer_type_cache := c'\<rparr>"
proof (cases "g_GetPointerType w")
  case False
  then show ?thesis
    by (intro exI [of _ c]) (simp add: HandlePointerMessage_def LogToFile_cache)
next
  case True
  show ?thesis
  proof (cases "GetPointerType os (GET_POINTERID_WPARAM wparam)")
    case None
    with True show ?thesis
      by (intro exI [of _ c]) (simp add: HandlePointerMessage_def LogToFile_cache)
  next
    case (Some t)
    with True show ?thesis
      by (intro exI [of _ "c(GET_POINTERID_WPARAM wparam \<mapsto> t)"])
         (simp add: HandlePointerMessage_def LogToFile_cache Send_cache
            pen_pressure_def Let_def)
  qed
qed

lemma top_level_switch_cache_indep:
  "\<exists>c'. top_level_switch os message wparam lparam (w\<lparr>pointer_type_cache := c\<rparr>) =
         (top_level_switch os message wparam lparam w)\<lparr>pointer_type_cache := c'\<rparr>"
proof -
  consider (classified) "message = WM_POINTERDOWN \<or> message = WM_POINTERUP \<or>
        message = WM_POINTERUPDATE \<or> message = WM_POINTERENTER"
    | (leave) "\<not> (message = WM_POINTERDOWN \<or> message = WM_POINTERUP \<or>
        message = WM_POINTERUPDATE \<or> message = WM_POINTERENTER)" "message = WM_POINTERLEAVE"
    | (other) "\<not> (message = WM_POINTERDOWN \<or> message = WM_POINTERUP \<or>
        message = WM_POINTERUPDATE \<or> message = WM_POINTERENTER)" "message \<noteq> WM_POINTERLEAVE"
    by blast
  then show ?thesis
  proof cases
    case classified
    with HPM_cache_indep [where os = os and message = message and wparam = wparam and lparam = lparam and w = w and c = c] show ?thesis
      by (simp add: top_level_switch_def)
  next
    case leave
    then show ?thesis
      by (intro exI [of _ "c(GET_POINTERID_WPARAM wparam := None)"])
         (simp add: top_level_switch_def Let_def)
  next
    case other
    then show ?thesis
      by (intro exI [of _ c]) (simp add: top_level_switch_def)
  qed
qed

lemma subclass_switch_form:
  obtains (logged) l where
      "message = WM_POINTERDOWN \<or> message = WM_POINTERUP \<or> message = WM_POINTERENTER \<or>
       message = WM_POINTERLEAVE"
      "\<And>w. subclass_switch os hwnd message wparam lparam w =
         (if g_flutter_window w
          then HandlePointerMessage os message wparam lparam (LogToFile os l w)
          else LogToFile os l w)"
  | (silent) "message = WM_POINTERUPDATE"
      "\<And>w. subclass_switch os hwnd message wparam lparam w =
         (if g_flutter_window w then HandlePointerMessage os message wparam lparam w else w)"
  | (ignored) "message \<noteq> WM_POINTERDOWN" "message \<noteq> WM_POINTERUP"
      "message \<noteq> WM_POINTERUPDATE" "message \<noteq> WM_POINTERENTER" "message \<noteq> WM_POINTERLEAVE"
      "\<And>w. subclass_switch os hwnd message wparam lparam w = w"
proof -
  consider "message = WM_POINTERDOWN" | "message = WM_POINTERUP" | "message = WM_POINTERUPDATE"
    | "message = WM_POINTERENTER" | "message = WM_POINTERLEAVE"
    | "message \<noteq> WM_POINTERDOWN \<and> message \<noteq> WM_POINTERUP \<and> message \<noteq> WM_POINTERUPDATE \<and>
       message \<noteq> WM_POINTERENTER \<and> message \<noteq> WM_POINTERLEAVE"
    by blast
  then show ?thesis
  proof cases
    case 1
    show ?thesis
      by (rule logged [of "[Txt ''FlutterViewSubclassProc: WM_POINTERDOWN received'']"])
         (simp_all add: 1 subclass_switch_def ProcessPointerMessage_def LogToFile_more_fields)
  next
    case 2
    show ?thesis
      by (rule logged [of "[Txt ''FlutterViewSubclassProc: WM_POINTERUP received'']"])
         (simp_all add: 2 WM_defs subclass_switch_def ProcessPointerMessage_def
            LogToFile_more_fields)
  next
    case 3
    show ?thesis
      by (rule silent)
         (simp_all add: 3 WM_defs subclass_switch_def ProcessPointerMessage_def)
  next
    case 4
    show ?thesis
      by (rule logged [of "[Txt ''FlutterViewSubclassProc: WM_POINTERENTER received'']"])
         (simp_all add: 4 WM_defs subclass_switch_def ProcessPointerMessage_def
            LogToFile_more_fields)
  next
    case 5
    show ?thesis
      by (rule logged [of "[Txt ''FlutterViewSubclassProc: WM_POINTERLEAVE received'']"])
         (simp_all add: 5 WM_defs subclass_switch_def ProcessPointerMessage_def
            LogToFile_more_fields)
  next
    case 6
    then show ?thesis
      by (intro ignored) (simp_all add: subclass_switch_def)
  qed
qed

lemma subclass_switch_cache_indep:
  "\<exists>c'. subclass_switch os hwnd message wparam lparam (w\<lparr>pointer_type_cache := c\<rparr>) =
         (subclass_switch os hwnd message wparam lparam w)\<lparr>pointer_type_cache := c'\<rparr>"
proof (cases rule: subclass_switch_form
    [where os = os and hwnd = hwnd and message = message and wparam = wparam and
       lparam = lparam])
  case (logged l)
  have log: "LogToFile os l (w\<lparr>pointer_type_cache := c\<rparr>) =
      (LogToFile os l w)\<lparr>pointer_type_cache := c\<rparr>"
    by (rule LogToFile_cache)
  show ?thesis
  proof (cases "g_flutter_window w")
    case True
    with HPM_cache_indep [where os = os and message = message and wparam = wparam and
        lparam = lparam and w = "LogToFile os l w" and c = c]
    show ?thesis by (simp add: logged(2) log)
  next
    case False
    then show ?thesis
      by (intro exI [of _ c]) (simp add: logged(2) log)
  qed
next
  case silent
  show ?thesis
  proof (cases "g_flutter_window w")
    case True
    with HPM_cache_indep [where os = os and message = message and wparam = wparam and
        lparam = lparam and w = w and c = c]
    show ?thesis by (simp add: silent(2))
  next
    case False
    then show ?thesis
      by (intro exI [of _ c]) (simp add: silent(2))
  qed
next
  case ignored
  show ?thesis
    by (intro exI [of _ c]) (simp add: ignored(6))
qed

lemma deliver_rest:
  "snd (deliver d w) =
     snd (deliver d (w\<lparr>pointer_type_cache := c\<rparr>))"
  by (cases "via d")
     (simp_all add: deliver_def MessageHandler_def FlutterViewSubclassProc_def Let_def
        top_level_switch_flags subclass_switch_flags split: option.split)

lemma deliver_cache_indep:
  "\<exists>c'. fst (deliver d (w\<lparr>pointer_type_cache := c\<rparr>)) =
         (fst (deliver d w))\<lparr>pointer_type_cache := c'\<rparr>"
proof (cases "via d")
  case TopLevel
  with top_level_switch_cache_indep [where os = "env d" and message = "message_of d" and wparam = "wparam_of d" and lparam = "lparam_of d" and w = w and c = c]
  show ?thesis by (simp add: deliver_state)
next
  case ChildView
  with subclass_switch_cache_indep
         [where os = "env d" and hwnd = "hwnd_of d" and message = "message_of d" and
            wparam = "wparam_of d" and lparam = "lparam_of d" and w = w and c = c]
  show ?thesis by (simp add: deliver_state)
qed

lemma run_cache_indep:
  "\<exists>c'. fst (run ds (w\<lparr>pointer_type_cache := c\<rparr>)) =
           (fst (run ds w))\<lparr>pointer_type_cache := c'\<rparr> \<and>
        snd (run ds (w\<lparr>pointer_type_cache := c\<rparr>)) = snd (run ds w)"
proof (induction ds arbitrary: w c)
  case Nil
  show ?case by (intro exI [of _ c]) simp
next
  case (Cons d ds)
  from deliver_cache_indep [where d = d and w = w and c = c] obtain c1 where
    c1: "fst (deliver d (w\<lparr>pointer_type_cache := c\<rparr>)) =
           (fst (deliver d w))\<lparr>pointer_type_cache := c1\<rparr>"
    by blast
  note rest = deliver_rest [where d = d and w = w and c = c, symmetric]
  show ?case
  proof (cases "snd (snd (deliver d w))")
    case (Inl f)
    with c1 rest show ?thesis
      by (intro exI [of _ c1]) (simp add: run_Cons del: run.simps)
  next
    case (Inr r)
    with c1 rest Cons [where w = "fst (deliver d w)" and c = c1] show ?thesis
      by (simp add: run_Cons del: run.simps)
  qed
qed

lemma top_level_pointer_outcome:
  assumes "message_of d \<noteq> WM_FONTCHANGE" and "via d = TopLevel"
  shows "\<exists>r. snd (snd (deliver d w)) = Inr r"
  using assms
  by (simp add: deliver_def MessageHandler_def Let_def split: option.split)

lemma leave_then_down:
  "channel_out (fst (run [top_level stylus_os WM_POINTERLEAVE 5,
                          top_level stylus_os WM_POINTERDOWN 5] ready_window)) =
     [classification_event 5 PT_PEN 600]"
proof -
  let ?leave = "top_level stylus_os WM_POINTERLEAVE 5"
  let ?down = "top_level stylus_os WM_POINTERDOWN 5"
  let ?w1 = "fst (deliver ?leave ready_window)"
  have not_font: "message_of ?leave \<noteq> WM_FONTCHANGE" "message_of ?down \<noteq> WM_FONTCHANGE"
    "via ?leave = TopLevel" "via ?down = TopLevel"
    by (simp_all add: top_level_def WM_defs)
  from top_level_pointer_outcome [OF not_font(1) not_font(3)]
  obtain r1 where r1: "snd (snd (deliver ?leave ready_window)) = Inr r1" by blast
  from top_level_pointer_outcome [OF not_font(2) not_font(4)]
  obtain r2 where r2: "snd (snd (deliver ?down ?w1)) = Inr r2" by blast
  have run: "fst (run [?leave, ?down] ready_window) = fst (deliver ?down ?w1)"
    by (simp add: run_Cons r1 r2 del: run.simps(2))
  have flags: "g_GetPointerType ?w1" "pointer_channel ?w1" "g_GetPointerPenInfo ?w1"
    "channel_out ?w1 = []"
    by (simp_all add: deliver_flags deliver_channel ready_window_eq top_level_def
          emitted_def WM_defs)
  have "channel_out (fst (deliver ?down ?w1)) =
      channel_out ?w1 @ emitted stylus_os WM_POINTERDOWN 5 ?w1"
    by (simp add: deliver_channel) (simp add: top_level_def)
  also have "emitted stylus_os WM_POINTERDOWN 5 ?w1 = [classification_event 5 PT_PEN 600]"
    by (simp add: emitted_def flags pointer_id_5 stylus_os_answers pen_pressure_def)
  finally show ?thesis
    unfolding run flags by simp
qed

subsection \<open>Entries of the cache along a sequence\<close>

lemma top_level_entry:
  assumes "via d = TopLevel"
  shows "pointer_type_cache (fst (deliver d w)) x \<noteq> None \<longleftrightarrow>
           g_GetPointerType w \<and> classifies x d \<or>
           pointer_type_cache w x \<noteq> None \<and> \<not> leaves x d"
proof -
  let ?m = "message_of d"
  have state: "fst (deliver d w) =
      top_level_switch (env d) ?m (wparam_of d) (lparam_of d) w"
    using assms by (simp add: deliver_state)
  consider (classified) "?m = WM_POINTERDOWN \<or> ?m = WM_POINTERUP \<or>
        ?m = WM_POINTERUPDATE \<or> ?m = WM_POINTERENTER"
    | (leave) "?m = WM_POINTERLEAVE"
    | (other) "\<not> (?m = WM_POINTERDOWN \<or> ?m = WM_POINTERUP \<or>
        ?m = WM_POINTERUPDATE \<or> ?m = WM_POINTERENTER)" "?m \<noteq> WM_POINTERLEAVE"
    by blast
  then show ?thesis
  proof cases
    case classified
    then have not_leave: "\<not> leaves x d"
      using message_codes_distinct by (auto simp: leaves_def)
    from classified have "fst (deliver d w) =
        HandlePointerMessage (env d) ?m (wparam_of d) (lparam_of d) w"
      by (simp add: state top_level_switch_def)
    then have "pointer_type_cache (fst (deliver d w)) x =
        (if g_GetPointerType w
         then (case GetPointerType (env d) (pointer_of d) of
                 Some t \<Rightarrow> ((pointer_type_cache w)(pointer_of d \<mapsto> t)) x
               | None \<Rightarrow> pointer_type_cache w x)
         else pointer_type_cache w x)"
      by (simp add: HPM_cache pointer_of_def split: option.split)
    with classified not_leave show ?thesis
      by (auto simp: classifies_def split: option.splits if_splits)
  next
    case leave
    then have "\<not> classifies x d"
      using message_codes_distinct by (auto simp: classifies_def)
    moreover from leave have "pointer_type_cache (fst (deliver d w)) x =
        ((pointer_type_cache w)(pointer_of d := None)) x"
      using message_codes_distinct
      by (simp add: state top_level_switch_def pointer_of_def Let_def)
    ultimately show ?thesis
      using leave by (auto simp: leaves_def)
  next
    case other
    then have "\<not> classifies x d" "\<not> leaves x d"
      by (auto simp: classifies_def leaves_def)
    moreover from other have "fst (deliver d w) = w"
      by (simp add: state top_level_switch_def)
    ultimately show ?thesis by simp
  qed
qed

text \<open>
  On the top-level path a pointer-leave only erases the entry of its identifier, and
  erasing an absent entry changes nothing.
\<close>

lemma top_level_leave_erases:
  "top_level_switch os WM_POINTERLEAVE wparam lparam w =
     w\<lparr>pointer_type_cache := (pointer_type_cache w)(GET_POINTERID_WPARAM wparam := None)\<rparr>"
  by (simp add: top_level_switch_def WM_defs)

lemma top_level_leave_absent:
  assumes "pointer_type_cache w (GET_POINTERID_WPARAM wparam) = None"
  shows "top_level_switch os WM_POINTERLEAVE wparam lparam w = w"
proof -
  from assms have "(pointer_type_cache w)(GET_POINTERID_WPARAM wparam := None) =
      pointer_type_cache w"
    by (simp add: fun_upd_idem)
  then show ?thesis
    by (simp add: top_level_leave_erases)
qed

lemma split_at_head:
  "(\<exists>before d after. e # es = before @ d # after \<and> P d \<and> (\<forall>l\<in>set after. Q l)) \<longleftrightarrow>
     P e \<and> (\<forall>l\<in>set es. Q l) \<or>
     (\<exists>before d after. es = before @ d # after \<and> P d \<and> (\<forall>l\<in>set after. Q l))"
  (is "?L \<longleftrightarrow> ?H \<or> ?T")
proof
  assume ?L
  then obtain before d after where
    eq: "e # es = before @ d # after" and holds: "P d" "\<forall>l\<in>set after. Q l"
    by blast
  show "?H \<or> ?T"
  proof (cases before)
    case Nil
    with eq holds show ?thesis by simp
  next
    case (Cons b bs)
    with eq have "es = bs @ d # after" by simp
    with holds show ?thesis by blast
  qed
next
  assume "?H \<or> ?T"
  then show ?L
  proof
    assume ?H
    then have "e # es = [] @ e # es \<and> P e \<and> (\<forall>l\<in>set es. Q l)" by simp
    then show ?L by blast
  next
    assume ?T
    then obtain before d after where
      "es = before @ d # after" "P d" "\<forall>l\<in>set after. Q l"
      by blast
    then have "e # es = (e # before) @ d # after \<and> P d \<and> (\<forall>l\<in>set after. Q l)" by simp
    then show ?L by blast
  qed
qed

lemma deliver_outcome:
  assumes "message_of d \<noteq> WM_FONTCHANGE"
  shows "\<exists>r. snd (snd (deliver d w)) = Inr r"
  using assms
  by (cases "via d")
     (simp_all add: deliver_def MessageHandler_def FlutterViewSubclassProc_def Let_def
        split: option.split)

lemma run_single:
  assumes "message_of d \<noteq> WM_FONTCHANGE"
  shows "run [d] w = (fst (deliver d w), None)"
proof -
  from deliver_outcome [OF assms] obtain r where "snd (snd (deliver d w)) = Inr r" ..
  then show ?thesis by (simp add: run_Cons del: run.simps(2))
qed

lemma run_pair:
  assumes "message_of d \<noteq> WM_FONTCHANGE" and "message_of e \<noteq> WM_FONTCHANGE"
  shows "run [d, e] w = (fst (deliver e (fst (deliver d w))), None)"
proof -
  from deliver_outcome [OF assms(1)] obtain r where "snd (snd (deliver d w)) = Inr r" ..
  then have "run [d, e] w = run [e] (fst (deliver d w))"
    by (simp add: run_Cons del: run.simps)
  with run_single [OF assms(2)] show ?thesis by simp
qed

lemma top_level_fields:
  "via (top_level os message wparam) = TopLevel"
  "env (top_level os message wparam) = os"
  "message_of (top_level os message wparam) = message"
  "wparam_of (top_level os message wparam) = wparam"
  "pointer_of (top_level os message wparam) = GET_POINTERID_WPARAM wparam"
  by (simp_all add: top_level_def pointer_of_def)

lemma child_view_fields:
  "via (child_view os message wparam) = ChildView"
  "env (child_view os message wparam) = os"
  "message_of (child_view os message wparam) = message"
  "wparam_of (child_view os message wparam) = wparam"
  "pointer_of (child_view os message wparam) = GET_POINTERID_WPARAM wparam"
  by (simp_all add: child_view_def pointer_of_def)

lemma pointer_id_9: "GET_POINTERID_WPARAM 9 = 9"
  by (simp add: GET_POINTERID_WPARAM_def LOWORD_def)

lemma touch_answer: "GetPointerType stylus_os 9 = Some PT_TOUCH"
  by (simp add: stylus_os_def)

lemma not_font:
  "WM_POINTERDOWN \<noteq> WM_FONTCHANGE" "WM_POINTERUP \<noteq> WM_FONTCHANGE"
  "WM_POINTERUPDATE \<noteq> WM_FONTCHANGE" "WM_POINTERENTER \<noteq> WM_FONTCHANGE"
  "WM_POINTERLEAVE \<noteq> WM_FONTCHANGE"
  by (simp_all add: WM_defs)

lemma entry_after_classifier:
  assumes kind: "message_of d = WM_POINTERDOWN \<or> message_of d = WM_POINTERUP \<or>
      message_of d = WM_POINTERUPDATE \<or> message_of d = WM_POINTERENTER"
    and after: "pointer_type_cache w' =
      (if handed then pointer_type_cache
         (HandlePointerMessage (env d) (message_of d) (wparam_of d) (lparam_of d) w0)
       else pointer_type_cache w)"
    and same: "pointer_type_cache w0 = pointer_type_cache w"
      "g_GetPointerType w0 = g_GetPointerType w"
  shows "pointer_type_cache w' x \<noteq> None \<longleftrightarrow>
           g_GetPointerType w \<and> classifies x d \<and> handed \<or>
           pointer_type_cache w x \<noteq> None \<and> \<not> leaves x d"
proof -
  from kind have not_leave: "\<not> leaves x d"
    using message_codes_distinct by (auto simp: leaves_def)
  have "pointer_type_cache w' x =
      (if handed \<and> g_GetPointerType w
       then (case GetPointerType (env d) (pointer_of d) of
               Some t \<Rightarrow> ((pointer_type_cache w)(pointer_of d \<mapsto> t)) x
             | None \<Rightarrow> pointer_type_cache w x)
       else pointer_type_cache w x)"
    by (simp add: after HPM_cache same pointer_of_def split: option.split)
  with kind not_leave show ?thesis
    by (auto simp: classifies_def split: option.splits if_splits)
qed

lemma child_view_entry:
  assumes "via d = ChildView" and "message_of d \<noteq> WM_POINTERLEAVE"
  shows "pointer_type_cache (fst (deliver d w)) x \<noteq> None \<longleftrightarrow>
           g_GetPointerType w \<and> classifies x d \<and> g_flutter_window w \<or>
           pointer_type_cache w x \<noteq> None \<and> \<not> leaves x d"
proof -
  let ?os = "env d" and ?m = "message_of d"
  have state: "fst (deliver d w) =
      subclass_switch ?os (hwnd_of d) ?m (wparam_of d) (lparam_of d) w"
    using assms(1) by (simp add: deliver_state)
  show ?thesis
  proof (cases rule: subclass_switch_form
      [where os = ?os and hwnd = "hwnd_of d" and message = ?m and wparam = "wparam_of d" and
         lparam = "lparam_of d"])
    case (logged l)
    from logged(1) assms(2) have kind: "?m = WM_POINTERDOWN \<or> ?m = WM_POINTERUP \<or>
        ?m = WM_POINTERUPDATE \<or> ?m = WM_POINTERENTER"
      by blast
    have "pointer_type_cache (fst (deliver d w)) =
        (if g_flutter_window w
         then pointer_type_cache
           (HandlePointerMessage ?os ?m (wparam_of d) (lparam_of d) (LogToFile ?os l w))
         else pointer_type_cache w)"
      by (simp add: state logged(2) LogToFile_fields)
    from entry_after_classifier [OF kind this] show ?thesis
      by (simp add: LogToFile_fields)
  next
    case silent
    then have kind: "?m = WM_POINTERDOWN \<or> ?m = WM_POINTERUP \<or>
        ?m = WM_POINTERUPDATE \<or> ?m = WM_POINTERENTER"
      by simp
    have "pointer_type_cache (fst (deliver d w)) =
        (if g_flutter_window w
         then pointer_type_cache
           (HandlePointerMessage ?os ?m (wparam_of d) (lparam_of d) w)
         else pointer_type_cache w)"
      by (simp add: state silent(2))
    from entry_after_classifier [OF kind this] show ?thesis
      by simp
  next
    case ignored
    then have "\<not> classifies x d" "\<not> leaves x d"
      by (auto simp: classifies_def leaves_def)
    moreover have "fst (deliver d w) = w"
      by (simp add: state ignored(6))
    ultimately show ?thesis by simp
  qed
qed

lemma deliver_entry:
  assumes "via d = ChildView \<longrightarrow> message_of d \<noteq> WM_POINTERLEAVE"
  shows "pointer_type_cache (fst (deliver d w)) x \<noteq> None \<longleftrightarrow>
           g_GetPointerType w \<and> classifies x d \<and> (via d = ChildView \<longrightarrow> g_flutter_window w) \<or>
           pointer_type_cache w x \<noteq> None \<and> \<not> leaves x d"
proof (cases "via d")
  case TopLevel
  with top_level_entry [OF TopLevel, of w x] show ?thesis by simp
next
  case ChildView
  with assms child_view_entry [OF ChildView, of w x] show ?thesis by simp
qed

lemma unlogged_os_answers:
  "GetPointerType unlogged_os 3 = None"
  "GetLastError unlogged_os = 87"
  by (simp_all add: unlogged_os_def stylus_os_def)

subsection \<open>What a handler hands on\<close>

text \<open>
  The child view's procedure hands every message, unchanged, to exactly one next
  procedure, the one it replaced or else the default one, and returns its result.
  The top-level handler hands a message, unchanged, to the hosted runtime when there
  is one, and to the base window when the runtime gives no result or there is no
  runtime; nothing the classifier did or found enters into it, and every pointer
  message reaches the runtime or the base window first.
\<close>

lemma handlers_pass_on:
  "snd (FlutterViewSubclassProc os hwnd message wparam lparam w) =
     (case g_original_flutter_view_proc w of
        Some original \<Rightarrow>
          ([OriginalProc original hwnd message wparam lparam],
           Inr (CallWindowProc os original hwnd message wparam lparam))
      | None \<Rightarrow>
          ([DefaultProc hwnd message wparam lparam],
           Inr (DefWindowProc os hwnd message wparam lparam))) \<and>
   snd (MessageHandler os hwnd message wparam lparam w) =
     (if flutter_controller w
      then (case HandleTopLevelWindowProc os hwnd message wparam lparam of
              Some result \<Rightarrow> ([HostedRuntime hwnd message wparam lparam], Inr result)
            | None \<Rightarrow>
                (HostedRuntime hwnd message wparam lparam #
                   (if message = WM_FONTCHANGE then [ReloadSystemFonts] else []) @
                   [BaseWindow hwnd message wparam lparam],
                 Inr (Win32Window_MessageHandler os hwnd message wparam lparam)))
      else if message = WM_FONTCHANGE then ([], Inl NullDereference)
      else ([BaseWindow hwnd message wparam lparam],
            Inr (Win32Window_MessageHandler os hwnd message wparam lparam))) \<and>
   (message = WM_POINTERDOWN \<or> message = WM_POINTERUP \<or> message = WM_POINTERUPDATE \<or>
    message = WM_POINTERENTER \<or> message = WM_POINTERLEAVE \<longrightarrow>
      (\<exists>rest result. snd (MessageHandler os hwnd message wparam lparam w) =
         ((if flutter_controller w then HostedRuntime hwnd message wparam lparam
           else BaseWindow hwnd message wparam lparam) # rest, Inr result)))"
proof (intro conjI)
  show "snd (FlutterViewSubclassProc os hwnd message wparam lparam w) =
     (case g_original_flutter_view_proc w of
        Some original \<Rightarrow>
          ([OriginalProc original hwnd message wparam lparam],
           Inr (CallWindowProc os original hwnd message wparam lparam))
      | None \<Rightarrow>
          ([DefaultProc hwnd message wparam lparam],
           Inr (DefWindowProc os hwnd message wparam lparam)))"
    by (simp add: FlutterViewSubclassProc_def subclass_switch_flags Let_def
          split: option.split)
next
  show top: "snd (MessageHandler os hwnd message wparam lparam w) =
     (if flutter_controller w
      then (case HandleTopLevelWindowProc os hwnd message wparam lparam of
              Some result \<Rightarrow> ([HostedRuntime hwnd message wparam lparam], Inr result)
            | None \<Rightarrow>
                (HostedRuntime hwnd message wparam lparam #
                   (if message = WM_FONTCHANGE then [ReloadSystemFonts] else []) @
                   [BaseWindow hwnd message wparam lparam],
                 Inr (Win32Window_MessageHandler os hwnd message wparam lparam)))
      else if message = WM_FONTCHANGE then ([], Inl NullDereference)
      else ([BaseWindow hwnd message wparam lparam],
            Inr (Win32Window_MessageHandler os hwnd message wparam lparam)))"
    by (simp add: MessageHandler_def top_level_switch_flags Let_def split: option.split)
  show "message = WM_POINTERDOWN \<or> message = WM_POINTERUP \<or> message = WM_POINTERUPDATE \<or>
    message = WM_POINTERENTER \<or> message = WM_POINTERLEAVE \<longrightarrow>
      (\<exists>rest result. snd (MessageHandler os hwnd message wparam lparam w) =
         ((if flutter_controller w then HostedRuntime hwnd message wparam lparam
           else BaseWindow hwnd message wparam lparam) # rest, Inr result))"
  proof
    assume "message = WM_POINTERDOWN \<or> message = WM_POINTERUP \<or>
      message = WM_POINTERUPDATE \<or> message = WM_POINTERENTER \<or> message = WM_POINTERLEAVE"
    then have "message \<noteq> WM_FONTCHANGE"
      using not_font by auto
    then show "\<exists>rest result. snd (MessageHandler os hwnd message wparam lparam w) =
         ((if flutter_controller w then HostedRuntime hwnd message wparam lparam
           else BaseWindow hwnd message wparam lparam) # rest, Inr result)"
      unfolding top by (simp split: option.split)
  qed
qed

subsection \<open>The claims\<close>

text \<open>
  \<^bold>\<open>C1\<close>, as amended. The classifier sends a message on the application channel for
  a pointer message if and only if the message is a pointer-down, the device-type
  capability was resolved, the device-type query for the message's identifier succeeds
  on that message, and the channel has been established. So a sequence of
  classifier calls sends something if and only if the capability was resolved, the
  channel is established and some pointer-down of the sequence has a successful
  query; with the capability unresolved no sequence sends anything.
\<close>

theorem C1_channel_message_iff:
  "(channel_out (HandlePointerMessage os message wparam lparam w) \<noteq> channel_out w \<longleftrightarrow>
      message = WM_POINTERDOWN \<and> g_GetPointerType w \<and>
      GetPointerType os (GET_POINTERID_WPARAM wparam) \<noteq> None \<and> pointer_channel w) \<and>
   (channel_out (classify_all ms w) \<noteq> channel_out w \<longleftrightarrow>
      g_GetPointerType w \<and> pointer_channel w \<and>
      (\<exists>(os, message, wparam, lparam) \<in> set ms.
         message = WM_POINTERDOWN \<and> GetPointerType os (GET_POINTERID_WPARAM wparam) \<noteq> None)) \<and>
   channel_out (classify_all ms (w\<lparr>g_GetPointerType := False\<rparr>)) = channel_out w"
proof (intro conjI)
  show "channel_out (HandlePointerMessage os message wparam lparam w) \<noteq> channel_out w \<longleftrightarrow>
      message = WM_POINTERDOWN \<and> g_GetPointerType w \<and>
      GetPointerType os (GET_POINTERID_WPARAM wparam) \<noteq> None \<and> pointer_channel w"
    using emitted_empty_iff [of os message wparam w] by (simp add: HPM_channel) blast
next
  from classify_all_channel [of ms w]
  show "channel_out (classify_all ms w) \<noteq> channel_out w \<longleftrightarrow>
      g_GetPointerType w \<and> pointer_channel w \<and>
      (\<exists>(os, message, wparam, lparam) \<in> set ms.
         message = WM_POINTERDOWN \<and> GetPointerType os (GET_POINTERID_WPARAM wparam) \<noteq> None)"
    by (elim exE conjE) simp
next
  from classify_all_channel [of ms "w\<lparr>g_GetPointerType := False\<rparr>"]
  show "channel_out (classify_all ms (w\<lparr>g_GetPointerType := False\<rparr>)) = channel_out w"
    by (elim exE conjE) simp
qed


theorem C1_channel_message_iff_witness:
  "channel_out (HandlePointerMessage stylus_os WM_POINTERDOWN 5 0 ready_window) \<noteq>
     channel_out ready_window \<and>
   channel_out (HandlePointerMessage stylus_os WM_POINTERDOWN 3 0 ready_window) =
     channel_out ready_window \<and>
   channel_out (classify_all [(stylus_os, WM_POINTERDOWN, 5, 0)]
     (ready_window\<lparr>g_GetPointerType := False\<rparr>)) = channel_out ready_window"
proof -
  have pen: "g_GetPointerType ready_window \<and>
      GetPointerType stylus_os (GET_POINTERID_WPARAM 5) \<noteq> None \<and> pointer_channel ready_window"
    by (simp add: pointer_id_5 stylus_os_answers ready_window_eq)
  have unknown: "GetPointerType stylus_os (GET_POINTERID_WPARAM 3) = None"
    by (simp add: pointer_id_3 stylus_os_answers)
  note five = C1_channel_message_iff
    [of stylus_os WM_POINTERDOWN 5 0 ready_window "[(stylus_os, WM_POINTERDOWN, 5, 0)]"]
  note three = C1_channel_message_iff [of stylus_os WM_POINTERDOWN 3 0 ready_window "[]"]
  from five [THEN conjunct1] pen
  have "channel_out (HandlePointerMessage stylus_os WM_POINTERDOWN 5 0 ready_window) \<noteq>
          channel_out ready_window"
    by blast
  moreover from three [THEN conjunct1] unknown
  have "channel_out (HandlePointerMessage stylus_os WM_POINTERDOWN 3 0 ready_window) =
          channel_out ready_window"
    by blast
  moreover from five
  have "channel_out (classify_all [(stylus_os, WM_POINTERDOWN, 5, 0)]
          (ready_window\<lparr>g_GetPointerType := False\<rparr>)) = channel_out ready_window"
    by (rule conjunct2 [THEN conjunct2])
  ultimately show ?thesis by blast
qed



text \<open>
  As it was stated, without the condition on the channel, C1 fails: right after the
  constructor (capability resolved, channel not yet made) a pointer-down of pen 5,
  whose type query succeeds, sends nothing.
\<close>

theorem C1_counterexample:
  "\<not> (channel_out (HandlePointerMessage stylus_os WM_POINTERDOWN 5 0 constructed_window) \<noteq>
        channel_out constructed_window \<longleftrightarrow>
      WM_POINTERDOWN = WM_POINTERDOWN \<and> g_GetPointerType constructed_window \<and>
      GetPointerType stylus_os (GET_POINTERID_WPARAM 5) \<noteq> None)"
  by (simp add: HPM_channel emitted_def pointer_id_5 stylus_os_answers constructed_window_eq)

text \<open>
  \<^bold>\<open>C2\<close> fails on the child view's procedure, which hands a pointer-leave to the
  classifier like the other four messages: with pen 5 cached as a finger, a
  pointer-leave for 5 through the child view leaves an entry for 5 (rewritten to the
  type just queried), and from an empty cache it creates one; the same message
  through the top-level handler removes the entry.
\<close>

theorem C2_child_view_leave_is_classified:
  "pointer_type_cache
     (fst (deliver (child_view stylus_os WM_POINTERLEAVE 5)
        (ready_window\<lparr>pointer_type_cache := [5 \<mapsto> PT_TOUCH]\<rparr>))) 5 = Some PT_PEN \<and>
   pointer_type_cache
     (fst (deliver (child_view stylus_os WM_POINTERLEAVE 5) ready_window)) 5 = Some PT_PEN \<and>
   pointer_type_cache
     (fst (deliver (top_level stylus_os WM_POINTERLEAVE 5)
        (ready_window\<lparr>pointer_type_cache := [5 \<mapsto> PT_TOUCH]\<rparr>))) 5 = None"
proof (intro conjI)
  have sub: "subclass_switch stylus_os h WM_POINTERLEAVE 5 l w =
      (if g_flutter_window w
       then HandlePointerMessage stylus_os WM_POINTERLEAVE 5 l
              (LogToFile stylus_os [Txt ''FlutterViewSubclassProc: WM_POINTERLEAVE received''] w)
       else LogToFile stylus_os [Txt ''FlutterViewSubclassProc: WM_POINTERLEAVE received''] w)"
    for h l w
    by (simp add: subclass_switch_def ProcessPointerMessage_def LogToFile_more_fields WM_defs)
  show "pointer_type_cache
     (fst (deliver (child_view stylus_os WM_POINTERLEAVE 5)
        (ready_window\<lparr>pointer_type_cache := [5 \<mapsto> PT_TOUCH]\<rparr>))) 5 = Some PT_PEN"
    by (simp add: deliver_state child_view_fields sub HPM_cache LogToFile_fields
          pointer_id_5 stylus_os_answers ready_window_eq)
  show "pointer_type_cache
     (fst (deliver (child_view stylus_os WM_POINTERLEAVE 5) ready_window)) 5 = Some PT_PEN"
    by (simp add: deliver_state child_view_fields sub HPM_cache LogToFile_fields
          pointer_id_5 stylus_os_answers ready_window_eq)
  show "pointer_type_cache
     (fst (deliver (top_level stylus_os WM_POINTERLEAVE 5)
        (ready_window\<lparr>pointer_type_cache := [5 \<mapsto> PT_TOUCH]\<rparr>))) 5 = None"
    by (simp add: deliver_state top_level_fields top_level_switch_def pointer_id_5 WM_defs)
qed

text \<open>
  \<^bold>\<open>C3\<close>, as amended. Along a sequence of messages through the two handlers that is
  handled to its end and in which no pointer-leave goes through the child view, the
  cache has an entry for an identifier if and only if either the device-type
  capability is resolved and some pointer-down, -up, -update or -enter for the
  identifier has been handed to the classifier (through the child view that needs
  the window to be registered) with a successful type query and no pointer-leave for
  the identifier after it, or the entry was there at the start and no pointer-leave
  for the identifier has been handled.
\<close>

theorem C3_entry_iff_classified_and_not_left:
  assumes "\<forall>d\<in>set ds. via d = ChildView \<longrightarrow> message_of d \<noteq> WM_POINTERLEAVE"
    and "snd (run ds w) = None"
  shows "pointer_type_cache (fst (run ds w)) x \<noteq> None \<longleftrightarrow>
           g_GetPointerType w \<and>
           (\<exists>before d after. ds = before @ d # after \<and>
              (classifies x d \<and> (via d = ChildView \<longrightarrow> g_flutter_window w)) \<and>
              (\<forall>l\<in>set after. \<not> leaves x l)) \<or>
           pointer_type_cache w x \<noteq> None \<and> (\<forall>l\<in>set ds. \<not> leaves x l)"
  using assms
proof (induction ds arbitrary: w)
  case Nil
  show ?case by simp
next
  case (Cons e es)
  let ?w1 = "fst (deliver e w)"
  let ?handed = "\<lambda>d. classifies x d \<and> (via d = ChildView \<longrightarrow> g_flutter_window w)"
  from Cons.prems(1) have here: "via e = ChildView \<longrightarrow> message_of e \<noteq> WM_POINTERLEAVE"
    and rest: "\<forall>d\<in>set es. via d = ChildView \<longrightarrow> message_of d \<noteq> WM_POINTERLEAVE"
    by simp_all
  from Cons.prems(2) obtain r where ok: "snd (snd (deliver e w)) = Inr r"
    by (cases "snd (snd (deliver e w))") (simp_all add: run_Cons del: run.simps)
  then have step: "run (e # es) w = run es ?w1"
    by (simp add: run_Cons del: run.simps)
  with Cons.prems(2) have finished: "snd (run es ?w1) = None"
    by simp
  have flags: "g_GetPointerType ?w1 = g_GetPointerType w"
    "g_flutter_window ?w1 = g_flutter_window w"
    by (rule deliver_flags)+
  define later where "later \<longleftrightarrow>
      (\<exists>before d after. es = before @ d # after \<and> ?handed d \<and>
         (\<forall>l\<in>set after. \<not> leaves x l))"
  define quiet where "quiet \<longleftrightarrow> (\<forall>l\<in>set es. \<not> leaves x l)"
  have "pointer_type_cache (fst (run (e # es) w)) x \<noteq> None \<longleftrightarrow>
      g_GetPointerType w \<and> later \<or> pointer_type_cache ?w1 x \<noteq> None \<and> quiet"
    using Cons.IH [OF rest finished] by (simp only: step flags later_def quiet_def)
  also have "pointer_type_cache ?w1 x \<noteq> None \<longleftrightarrow>
      g_GetPointerType w \<and> classifies x e \<and> (via e = ChildView \<longrightarrow> g_flutter_window w) \<or>
      pointer_type_cache w x \<noteq> None \<and> \<not> leaves x e"
    by (rule deliver_entry [OF here])
  finally have entry: "pointer_type_cache (fst (run (e # es) w)) x \<noteq> None \<longleftrightarrow>
      g_GetPointerType w \<and> later \<or>
      (g_GetPointerType w \<and> classifies x e \<and> (via e = ChildView \<longrightarrow> g_flutter_window w) \<or>
       pointer_type_cache w x \<noteq> None \<and> \<not> leaves x e) \<and> quiet" .
  have split: "(\<exists>before d after. e # es = before @ d # after \<and> ?handed d \<and>
      (\<forall>l\<in>set after. \<not> leaves x l)) \<longleftrightarrow> ?handed e \<and> quiet \<or> later"
    unfolding later_def quiet_def
    by (rule split_at_head [of e es ?handed "\<lambda>l. \<not> leaves x l"])
  have all: "(\<forall>l\<in>set (e # es). \<not> leaves x l) \<longleftrightarrow> \<not> leaves x e \<and> quiet"
    by (simp add: quiet_def)
  show ?case
    unfolding split all entry by blast
qed

theorem C3_entry_iff_classified_and_not_left_witness:
  "pointer_type_cache (fst (run [child_view stylus_os WM_POINTERUP 9] ready_window)) 9 \<noteq> None \<and>
   pointer_type_cache
     (fst (run [child_view stylus_os WM_POINTERDOWN 9, top_level stylus_os WM_POINTERLEAVE 9]
        ready_window)) 9 = None"
proof -
  let ?up = "child_view stylus_os WM_POINTERUP 9"
  let ?down = "child_view stylus_os WM_POINTERDOWN 9"
  let ?leave = "top_level stylus_os WM_POINTERLEAVE 9"
  have start: "g_GetPointerType ready_window" "pointer_type_cache ready_window 9 = None"
    "g_flutter_window ready_window"
    by (simp_all add: ready_window_eq)
  have up: "classifies 9 ?up"
    by (simp add: classifies_def child_view_fields pointer_id_9 touch_answer)
  have leave: "leaves 9 ?leave" "\<not> classifies 9 ?leave"
    using message_codes_distinct
    by (simp_all add: leaves_def classifies_def top_level_fields pointer_id_9)
  have path1: "\<forall>d\<in>set [?up]. via d = ChildView \<longrightarrow> message_of d \<noteq> WM_POINTERLEAVE"
    using message_codes_distinct by (simp add: child_view_fields)
  have end1: "snd (run [?up] ready_window) = None"
    by (simp add: run_single child_view_fields not_font del: run.simps)
  have "[?up] = [] @ ?up # [] \<and>
      (classifies 9 ?up \<and> (via ?up = ChildView \<longrightarrow> g_flutter_window ready_window)) \<and>
      (\<forall>l\<in>set []. \<not> leaves 9 l)"
    using up start by simp
  then have "\<exists>before d after. [?up] = before @ d # after \<and>
      (classifies 9 d \<and> (via d = ChildView \<longrightarrow> g_flutter_window ready_window)) \<and>
      (\<forall>l\<in>set after. \<not> leaves 9 l)"
    by blast
  with C3_entry_iff_classified_and_not_left [OF path1 end1, of 9] start
  have first: "pointer_type_cache (fst (run [?up] ready_window)) 9 \<noteq> None"
    by blast
  have path2: "\<forall>d\<in>set [?down, ?leave]. via d = ChildView \<longrightarrow> message_of d \<noteq> WM_POINTERLEAVE"
    using message_codes_distinct by (simp add: child_view_fields top_level_fields)
  have end2: "snd (run [?down, ?leave] ready_window) = None"
    by (simp add: run_pair child_view_fields top_level_fields not_font del: run.simps)
  let ?handed = "\<lambda>d. classifies 9 d \<and> (via d = ChildView \<longrightarrow> g_flutter_window ready_window)"
  have "\<not> (\<exists>before d after. [?down, ?leave] = before @ d # after \<and>
      (classifies 9 d \<and> (via d = ChildView \<longrightarrow> g_flutter_window ready_window)) \<and>
      (\<forall>l\<in>set after. \<not> leaves 9 l))"
    unfolding split_at_head [of ?down "[?leave]" ?handed "\<lambda>l. \<not> leaves 9 l"]
      split_at_head [of ?leave "[]" ?handed "\<lambda>l. \<not> leaves 9 l"]
    using leave by simp
  with C3_entry_iff_classified_and_not_left [OF path2 end2, of 9] start
  have second: "pointer_type_cache (fst (run [?down, ?leave] ready_window)) 9 = None"
    by blast
  from first second show ?thesis by (rule conjI)
qed

text \<open>
  As the specification words the invariant, C3 fails: after a pointer-down of
  identifier 3, whose type query fails, a begin has been observed and no leave, yet
  the cache has no entry for 3.
\<close>

theorem C3_counterexample:
  "\<not> (pointer_type_cache
        (fst (run [top_level stylus_os WM_POINTERDOWN 3] ready_window)) 3 \<noteq> None \<longleftrightarrow>
      contact_per_spec 3 False [top_level stylus_os WM_POINTERDOWN 3])"
proof -
  let ?down = "top_level stylus_os WM_POINTERDOWN 3"
  have "run [?down] ready_window = (fst (deliver ?down ready_window), None)"
    by (simp add: run_single top_level_fields not_font del: run.simps)
  moreover have "pointer_type_cache (fst (deliver ?down ready_window)) 3 = None"
    by (simp add: deliver_state top_level_fields top_level_switch_def HPM_cache
          pointer_id_3 stylus_os_answers ready_window_eq)
  ultimately have absent:
    "pointer_type_cache (fst (run [?down] ready_window)) 3 = None"
    by simp
  have "contact_per_spec 3 False [?down]"
    using message_codes_distinct
    by (simp add: leaves_def top_level_fields pointer_id_3)
  with absent show ?thesis by simp
qed

text \<open>
  \<^bold>\<open>C4\<close>. An event that the classifier sends carries an integer pressure; it is
  nonzero only if the queried type is \<open>PT_PEN\<close>, the pen-metadata capability was
  resolved and the pen query succeeded (the event then carries the pressure read);
  with another type, an unresolved pen capability or a failed pen query it is 0.
\<close>

theorem C4_pressure_nonzero_only_for_pen:
  assumes "channel_out (HandlePointerMessage os message wparam lparam w) = channel_out w @ [ev]"
  shows "\<exists>p. arguments ev (EString ''pressure'') = Some (EInt p) \<and>
           (p \<noteq> 0 \<longrightarrow>
              GetPointerType os (GET_POINTERID_WPARAM wparam) = Some PT_PEN \<and>
              g_GetPointerPenInfo w \<and>
              (\<exists>q. GetPointerPenInfo os (GET_POINTERID_WPARAM wparam) = Some q \<and> p = sint q)) \<and>
           (GetPointerType os (GET_POINTERID_WPARAM wparam) \<noteq> Some PT_PEN \<or>
            \<not> g_GetPointerPenInfo w \<or>
            GetPointerPenInfo os (GET_POINTERID_WPARAM wparam) = None \<longrightarrow> p = 0)"
proof -
  let ?i = "GET_POINTERID_WPARAM wparam"
  from assms have "emitted os message wparam w = [ev]"
    by (simp add: HPM_channel)
  then obtain t where t: "GetPointerType os ?i = Some t"
    and ev: "ev = classification_event ?i t (pen_pressure os w ?i t)"
    by (rule emitted_single)
  define pr where "pr = pen_pressure os w ?i t"
  have read: "arguments ev (EString ''pressure'') = Some (EInt (sint pr))"
    by (simp add: ev pr_def classification_event_def static_cast_int_def)
  have pen: "sint pr \<noteq> 0 \<longrightarrow>
      GetPointerType os ?i = Some PT_PEN \<and> g_GetPointerPenInfo w \<and>
      (\<exists>q. GetPointerPenInfo os ?i = Some q \<and> sint pr = sint q)"
  proof
    assume "sint pr \<noteq> 0"
    then have "pr \<noteq> 0" by auto
    from pen_pressure_nonzero [OF this [unfolded pr_def]] t
    show "GetPointerType os ?i = Some PT_PEN \<and> g_GetPointerPenInfo w \<and>
      (\<exists>q. GetPointerPenInfo os ?i = Some q \<and> sint pr = sint q)"
      by (simp add: pr_def)
  qed
  have other: "GetPointerType os ?i \<noteq> Some PT_PEN \<or> \<not> g_GetPointerPenInfo w \<or>
      GetPointerPenInfo os ?i = None \<longrightarrow> sint pr = 0"
  proof
    assume "GetPointerType os ?i \<noteq> Some PT_PEN \<or> \<not> g_GetPointerPenInfo w \<or>
      GetPointerPenInfo os ?i = None"
    with t have "t \<noteq> PT_PEN \<or> \<not> g_GetPointerPenInfo w \<or> GetPointerPenInfo os ?i = None"
      by simp
    then show "sint pr = 0"
      by (simp add: pr_def pen_pressure_zero)
  qed
  from read pen other show ?thesis by (intro exI conjI)
qed

theorem C4_pressure_nonzero_only_for_pen_witness:
  "arguments (classification_event 5 PT_PEN 600) (EString ''pressure'') = Some (EInt 600) \<and>
   GetPointerType stylus_os (GET_POINTERID_WPARAM 5) = Some PT_PEN \<and>
   g_GetPointerPenInfo ready_window \<and>
   (\<exists>q. GetPointerPenInfo stylus_os (GET_POINTERID_WPARAM 5) = Some q \<and> 600 = sint q)"
proof -
  have ev: "arguments (classification_event 5 PT_PEN 600) (EString ''pressure'') =
      Some (EInt 600)"
    by (simp add: classification_event_def static_cast_int_def)
  from C4_pressure_nonzero_only_for_pen [OF pen_down_event]
  obtain p where p: "arguments (classification_event 5 PT_PEN 600) (EString ''pressure'') =
      Some (EInt p)"
    and pen: "p \<noteq> 0 \<longrightarrow>
      GetPointerType stylus_os (GET_POINTERID_WPARAM 5) = Some PT_PEN \<and>
      g_GetPointerPenInfo ready_window \<and>
      (\<exists>q. GetPointerPenInfo stylus_os (GET_POINTERID_WPARAM 5) = Some q \<and> p = sint q)"
    by (elim exE conjE)
  have p600: "p = 600" using p unfolding ev by simp
  have rest: "GetPointerType stylus_os (GET_POINTERID_WPARAM 5) = Some PT_PEN \<and>
      g_GetPointerPenInfo ready_window \<and>
      (\<exists>q. GetPointerPenInfo stylus_os (GET_POINTERID_WPARAM 5) = Some q \<and> 600 = sint q)"
    using pen unfolding p600 by simp
  from ev rest show ?thesis by (rule conjI)
qed

text \<open>
  \<^bold>\<open>C5\<close>. One message adds at most one call to the channel, through the classifier
  and through either handler, and none unless the message is a pointer-down: for a
  pointer-update, pointer-enter or pointer-up (or anything else) the channel is left
  as it was.
\<close>

theorem C5_at_most_one_event_and_only_on_down:
  "(\<exists>evs. channel_out (HandlePointerMessage os message wparam lparam w) = channel_out w @ evs \<and>
          length evs \<le> 1 \<and> (message \<noteq> WM_POINTERDOWN \<longrightarrow> evs = [])) \<and>
   (\<exists>evs. channel_out (fst (deliver d w)) = channel_out w @ evs \<and>
          length evs \<le> 1 \<and> (message_of d \<noteq> WM_POINTERDOWN \<longrightarrow> evs = []))"
proof
  have "length (emitted os message wparam w) \<le> 1"
    by (rule emitted_length)
  moreover have "message \<noteq> WM_POINTERDOWN \<longrightarrow> emitted os message wparam w = []"
    by (simp add: emitted_not_down)
  ultimately show "\<exists>evs. channel_out (HandlePointerMessage os message wparam lparam w) =
      channel_out w @ evs \<and> length evs \<le> 1 \<and> (message \<noteq> WM_POINTERDOWN \<longrightarrow> evs = [])"
    using HPM_channel [of os message wparam lparam w] by blast
next
  let ?evs = "if via d = ChildView \<and> \<not> g_flutter_window w then []
              else emitted (env d) (message_of d) (wparam_of d) w"
  have "length ?evs \<le> 1"
    using emitted_length [of "env d" "message_of d" "wparam_of d" w] by simp
  moreover have "message_of d \<noteq> WM_POINTERDOWN \<longrightarrow> ?evs = []"
    by (simp add: emitted_not_down)
  ultimately show "\<exists>evs. channel_out (fst (deliver d w)) = channel_out w @ evs \<and>
      length evs \<le> 1 \<and> (message_of d \<noteq> WM_POINTERDOWN \<longrightarrow> evs = [])"
    using deliver_channel [of d w] by blast
qed

theorem C5_at_most_one_event_and_only_on_down_witness:
  "channel_out (HandlePointerMessage stylus_os WM_POINTERUPDATE 5 0 ready_window) =
     channel_out ready_window \<and>
   channel_out (fst (deliver (child_view stylus_os WM_POINTERUP 5) ready_window)) =
     channel_out ready_window"
proof -
  have not_down: "WM_POINTERUPDATE \<noteq> WM_POINTERDOWN"
    "message_of (child_view stylus_os WM_POINTERUP 5) \<noteq> WM_POINTERDOWN"
    using message_codes_distinct by (simp_all add: child_view_def)
  from C5_at_most_one_event_and_only_on_down
         [of stylus_os WM_POINTERUPDATE 5 0 ready_window
             "child_view stylus_os WM_POINTERUP 5"]
  show ?thesis using not_down by auto
qed

text \<open>
  \<^bold>\<open>C6\<close>. Two states that differ only in the contents of the cache send the same
  calls: for one message through the classifier, and for every sequence of
  deliveries through the two handlers (which also ends the same way). Type and
  pressure of an event come from the queries made on that message, so a
  pointer-down that reuses an identifier after its pointer-leave is classified
  afresh.
\<close>

theorem C6_events_do_not_depend_on_the_cache:
  "channel_out (HandlePointerMessage os message wparam lparam (w\<lparr>pointer_type_cache := c\<rparr>)) =
     channel_out (HandlePointerMessage os message wparam lparam w) \<and>
   channel_out (fst (run ds (w\<lparr>pointer_type_cache := c\<rparr>))) = channel_out (fst (run ds w)) \<and>
   snd (run ds (w\<lparr>pointer_type_cache := c\<rparr>)) = snd (run ds w)"
proof (intro conjI)
  from HPM_cache_indep [where os = os and message = message and wparam = wparam and lparam = lparam and w = w and c = c]
  show "channel_out (HandlePointerMessage os message wparam lparam
          (w\<lparr>pointer_type_cache := c\<rparr>)) =
        channel_out (HandlePointerMessage os message wparam lparam w)"
    by (elim exE) simp
next
  from run_cache_indep [where ds = ds and w = w and c = c]
  show "channel_out (fst (run ds (w\<lparr>pointer_type_cache := c\<rparr>))) = channel_out (fst (run ds w))"
    by (elim exE conjE) simp
next
  from run_cache_indep [where ds = ds and w = w and c = c]
  show "snd (run ds (w\<lparr>pointer_type_cache := c\<rparr>)) = snd (run ds w)"
    by (elim exE conjE)
qed

theorem C6_events_do_not_depend_on_the_cache_witness:
  "channel_out (HandlePointerMessage stylus_os WM_POINTERDOWN 5 0
     (ready_window\<lparr>pointer_type_cache := [5 \<mapsto> PT_TOUCH]\<rparr>)) =
     [classification_event 5 PT_PEN 600] \<and>
   channel_out (fst (run [top_level stylus_os WM_POINTERLEAVE 5,
                          top_level stylus_os WM_POINTERDOWN 5]
     (ready_window\<lparr>pointer_type_cache := [5 \<mapsto> PT_TOUCH]\<rparr>))) =
     [classification_event 5 PT_PEN 600]"
proof -
  note stale = C6_events_do_not_depend_on_the_cache
    [where w = ready_window and c = "[5 \<mapsto> PT_TOUCH]" and os = stylus_os and
       message = WM_POINTERDOWN and wparam = 5 and lparam = 0 and
       ds = "[top_level stylus_os WM_POINTERLEAVE 5, top_level stylus_os WM_POINTERDOWN 5]"]
  have empty: "channel_out ready_window = []"
    by (simp add: ready_window_eq)
  from stale [THEN conjunct1] pen_down_event
  have one: "channel_out (HandlePointerMessage stylus_os WM_POINTERDOWN 5 0
     (ready_window\<lparr>pointer_type_cache := [5 \<mapsto> PT_TOUCH]\<rparr>)) =
     [classification_event 5 PT_PEN 600]"
    by (simp only: empty append_Nil)
  from stale [THEN conjunct2, THEN conjunct1] leave_then_down
  have two: "channel_out (fst (run [top_level stylus_os WM_POINTERLEAVE 5,
                          top_level stylus_os WM_POINTERDOWN 5]
     (ready_window\<lparr>pointer_type_cache := [5 \<mapsto> PT_TOUCH]\<rparr>))) =
     [classification_event 5 PT_PEN 600]"
    by (rule trans)
  from one two show ?thesis by (rule conjI)
qed

text \<open>
  \<^bold>\<open>C7\<close>. After any call of the prober the ``initialized'' flag is set, and a
  later call, whatever the platform then answers, returns the state unchanged; so
  does any number of later calls. The first call of a process stores what the
  lookup of each entry point gave (null when \<^verbatim>\<open>user32.dll\<close> has no handle). Neither
  handler writes the two function pointers, so what the one attempt has resolved, or
  failed to resolve, stays for the run.
\<close>

theorem C7_resolution_happens_once:
  "g_pointer_api_initialized (InitializePointerApi os w) \<and>
   InitializePointerApi os' (InitializePointerApi os w) = InitializePointerApi os w \<and>
   foldl (\<lambda>w os. InitializePointerApi os w) (InitializePointerApi os w) later =
     InitializePointerApi os w \<and>
   g_GetPointerType (InitializePointerApi os process_start) =
     (GetModuleHandleA os ''user32.dll'' \<and> GetProcAddress os ''GetPointerType'') \<and>
   g_GetPointerPenInfo (InitializePointerApi os process_start) =
     (GetModuleHandleA os ''user32.dll'' \<and> GetProcAddress os ''GetPointerPenInfo'') \<and>
   g_GetPointerType (fst (run ds w)) = g_GetPointerType w \<and>
   g_GetPointerPenInfo (fst (run ds w)) = g_GetPointerPenInfo w"
proof (intro conjI)
  show "g_pointer_api_initialized (InitializePointerApi os w)"
    by (simp add: InitializePointerApi_def LogToFile_more_fields Let_def)
  show "InitializePointerApi os' (InitializePointerApi os w) = InitializePointerApi os w"
    by (rule Initialize_twice)
  show "foldl (\<lambda>w os. InitializePointerApi os w) (InitializePointerApi os w) later =
      InitializePointerApi os w"
    by (induction later) (simp_all add: Initialize_twice)
  show "g_GetPointerType (InitializePointerApi os process_start) =
      (GetModuleHandleA os ''user32.dll'' \<and> GetProcAddress os ''GetPointerType'')"
    by (simp add: InitializePointerApi_def process_start_def LogToFile_fields
          LogToFile_more_fields Let_def)
  show "g_GetPointerPenInfo (InitializePointerApi os process_start) =
      (GetModuleHandleA os ''user32.dll'' \<and> GetProcAddress os ''GetPointerPenInfo'')"
    by (simp add: InitializePointerApi_def process_start_def LogToFile_fields
          LogToFile_more_fields Let_def)
  show "g_GetPointerType (fst (run ds w)) = g_GetPointerType w"
    "g_GetPointerPenInfo (fst (run ds w)) = g_GetPointerPenInfo w"
    using run_flags [of ds w] by simp_all
qed

theorem C7_resolution_happens_once_witness:
  "\<not> g_GetPointerType (InitializePointerApi legacy_os process_start) \<and>
   \<not> g_GetPointerType
       (InitializePointerApi stylus_os (InitializePointerApi legacy_os process_start)) \<and>
   g_GetPointerType (InitializePointerApi stylus_os process_start)"
proof -
  note old = C7_resolution_happens_once [of legacy_os process_start stylus_os "[]" "[]"]
  note new = C7_resolution_happens_once [of stylus_os process_start stylus_os "[]" "[]"]
  have "\<not> GetProcAddress legacy_os ''GetPointerType''"
    by (simp add: legacy_os_def)
  with old have first: "\<not> g_GetPointerType (InitializePointerApi legacy_os process_start)"
    by simp
  from old have "InitializePointerApi stylus_os (InitializePointerApi legacy_os process_start) =
      InitializePointerApi legacy_os process_start"
    by (elim conjE)
  with first have second: "\<not> g_GetPointerType
      (InitializePointerApi stylus_os (InitializePointerApi legacy_os process_start))"
    by simp
  have "GetModuleHandleA stylus_os ''user32.dll'' \<and> GetProcAddress stylus_os ''GetPointerType''"
    by (simp add: stylus_os_def)
  with new have "g_GetPointerType (InitializePointerApi stylus_os process_start)"
    by simp
  with first second show ?thesis by simp
qed

text \<open>
  \<^bold>\<open>C8\<close>, as amended. When the type query is made (the capability is resolved) and
  fails, the classifier hands the failure line to \<^verbatim>\<open>LogToFile\<close> and does nothing
  else: no call is added to the channel and the cache is the one before. The line is
  written when the log file is open; when the log file could not be opened nothing
  is written and the state is unchanged altogether.
\<close>

theorem C8_query_failure_changes_nothing_but_the_log:
  assumes "g_GetPointerType w"
    and "GetPointerType os (GET_POINTERID_WPARAM wparam) = None"
  shows "HandlePointerMessage os message wparam lparam w =
           LogToFile os
             [Txt ''HandlePointerMessage: GetPointerType failed for pointer '',
              Num (GET_POINTERID_WPARAM wparam), Txt '', error: '',
              Num (GetLastError os)] w \<and>
         channel_out (HandlePointerMessage os message wparam lparam w) = channel_out w \<and>
         pointer_type_cache (HandlePointerMessage os message wparam lparam w) =
           pointer_type_cache w \<and>
         (g_log_initialized w \<and> g_log_file_is_open w \<longrightarrow>
            HandlePointerMessage os message wparam lparam w =
              w\<lparr>log_file := log_file w @
                  [[Txt ''HandlePointerMessage: GetPointerType failed for pointer '',
                    Num (GET_POINTERID_WPARAM wparam), Txt '', error: '',
                    Num (GetLastError os)]]\<rparr>) \<and>
         (g_log_initialized w \<and> \<not> g_log_file_is_open w \<longrightarrow>
            HandlePointerMessage os message wparam lparam w = w)"
proof -
  let ?line = "[Txt ''HandlePointerMessage: GetPointerType failed for pointer '',
                Num (GET_POINTERID_WPARAM wparam), Txt '', error: '',
                Num (GetLastError os)]"
  from assms have eq: "HandlePointerMessage os message wparam lparam w = LogToFile os ?line w"
    by (simp add: HandlePointerMessage_def)
  have "channel_out (LogToFile os ?line w) = channel_out w"
    "pointer_type_cache (LogToFile os ?line w) = pointer_type_cache w"
    by (rule LogToFile_fields)+
  moreover have "g_log_initialized w \<and> g_log_file_is_open w \<longrightarrow>
      LogToFile os ?line w = w\<lparr>log_file := log_file w @ [?line]\<rparr>"
    by (simp add: LogToFile_open)
  moreover have "g_log_initialized w \<and> \<not> g_log_file_is_open w \<longrightarrow>
      LogToFile os ?line w = w"
    by (simp add: LogToFile_open)
  ultimately show ?thesis
    unfolding eq by (intro conjI refl)
qed

theorem C8_query_failure_changes_nothing_but_the_log_witness:
  "HandlePointerMessage stylus_os WM_POINTERDOWN 3 0 ready_window =
     ready_window\<lparr>log_file := log_file ready_window @
       [[Txt ''HandlePointerMessage: GetPointerType failed for pointer '', Num 3,
         Txt '', error: '', Num 87]]\<rparr> \<and>
   HandlePointerMessage unlogged_os WM_POINTERDOWN 3 0 unlogged_window = unlogged_window \<and>
   channel_out (HandlePointerMessage stylus_os WM_POINTERDOWN 3 0 ready_window) = [] \<and>
   pointer_type_cache (HandlePointerMessage stylus_os WM_POINTERDOWN 3 0 ready_window) 3 = None"
proof -
  have cap: "g_GetPointerType ready_window" "g_GetPointerType unlogged_window"
    by (simp_all add: ready_window_eq unlogged_window_eq)
  have fails: "GetPointerType stylus_os (GET_POINTERID_WPARAM 3) = None"
    "GetPointerType unlogged_os (GET_POINTERID_WPARAM 3) = None"
    by (simp_all add: pointer_id_3 stylus_os_answers unlogged_os_answers)
  have start: "channel_out ready_window = []" "pointer_type_cache ready_window 3 = None"
    by (simp_all add: ready_window_eq)
  have open_log: "g_log_initialized ready_window \<and> g_log_file_is_open ready_window"
    by (simp add: ready_window_eq)
  have no_log: "g_log_initialized unlogged_window \<and> \<not> g_log_file_is_open unlogged_window"
    by (simp add: unlogged_window_eq)
  note logged = C8_query_failure_changes_nothing_but_the_log
    [OF cap(1) fails(1), of WM_POINTERDOWN 0]
  note silent = C8_query_failure_changes_nothing_but_the_log
    [OF cap(2) fails(2), of WM_POINTERDOWN 0]
  from logged [THEN conjunct2, THEN conjunct2, THEN conjunct2, THEN conjunct1, THEN mp,
      OF open_log]
  have a: "HandlePointerMessage stylus_os WM_POINTERDOWN 3 0 ready_window =
     ready_window\<lparr>log_file := log_file ready_window @
       [[Txt ''HandlePointerMessage: GetPointerType failed for pointer '', Num 3,
         Txt '', error: '', Num 87]]\<rparr>"
    by (simp add: pointer_id_3 stylus_os_answers)
  have b: "HandlePointerMessage unlogged_os WM_POINTERDOWN 3 0 unlogged_window = unlogged_window"
    by (rule silent [THEN conjunct2, THEN conjunct2, THEN conjunct2, THEN conjunct2, THEN mp,
      OF no_log])
  from logged [THEN conjunct2, THEN conjunct1]
  have c: "channel_out (HandlePointerMessage stylus_os WM_POINTERDOWN 3 0 ready_window) = []"
    by (simp only: start)
  from logged [THEN conjunct2, THEN conjunct2, THEN conjunct1]
  have d: "pointer_type_cache (HandlePointerMessage stylus_os WM_POINTERDOWN 3 0 ready_window) 3 =
      None"
    by (simp only: start)
  from a b c d show ?thesis by (intro conjI)
qed

text \<open>
  As it was stated, with the failure always logged, C8 fails: in a process without
  \<^verbatim>\<open>USERPROFILE\<close> the log file is never opened, and a pointer-down of identifier 3,
  whose type query fails, writes no line.
\<close>

theorem C8_counterexample:
  "\<not> (log_file (HandlePointerMessage unlogged_os WM_POINTERDOWN 3 0 unlogged_window) =
        log_file unlogged_window @
          [[Txt ''HandlePointerMessage: GetPointerType failed for pointer '', Num 3,
            Txt '', error: '', Num 87]] \<and>
      channel_out (HandlePointerMessage unlogged_os WM_POINTERDOWN 3 0 unlogged_window) =
        channel_out unlogged_window \<and>
      pointer_type_cache (HandlePointerMessage unlogged_os WM_POINTERDOWN 3 0 unlogged_window) =
        pointer_type_cache unlogged_window)"
proof -
  have "HandlePointerMessage unlogged_os WM_POINTERDOWN 3 0 unlogged_window =
      LogToFile unlogged_os
        [Txt ''HandlePointerMessage: GetPointerType failed for pointer '', Num 3,
         Txt '', error: '', Num 87] unlogged_window"
    by (simp add: HandlePointerMessage_def pointer_id_3 unlogged_os_answers unlogged_window_eq)
  also have "\<dots> = unlogged_window"
    by (simp add: LogToFile_open unlogged_window_eq)
  finally show ?thesis
    by simp
qed

text \<open>
  \<^bold>\<open>C9\<close>, as amended. With the channel established, the forwarder adds exactly one
  call, named \<^verbatim>\<open>onPointerTypeDetected\<close>, whose argument map has exactly the keys
  \<^verbatim>\<open>pointerId\<close>, \<^verbatim>\<open>pointerType\<close> and \<^verbatim>\<open>pressure\<close>, each an integer converted from the
  \<^verbatim>\<open>UINT32\<close>. With no channel the forwarder only hands a line to \<^verbatim>\<open>LogToFile\<close>: the
  channel is untouched, the line is written when the log file is open, and nothing
  at all changes when it is not. A pointer-down whose type query succeeds, with
  capability and channel, adds exactly one such call, for the message's identifier
  and the type queried.
\<close>

theorem C9_forwarder_sends_one_call_or_only_logs:
  "(pointer_channel w \<longrightarrow>
      (\<exists>m. channel_out (SendPointerTypeToDart os pointerId pointerType pressure w) =
              channel_out w @ [m] \<and>
           method_name m = ''onPointerTypeDetected'' \<and>
           dom (arguments m) =
             {EString ''pointerId'', EString ''pointerType'', EString ''pressure''} \<and>
           arguments m (EString ''pointerId'') = Some (EInt (sint pointerId)) \<and>
           arguments m (EString ''pointerType'') = Some (EInt (sint pointerType)) \<and>
           arguments m (EString ''pressure'') = Some (EInt (sint pressure)))) \<and>
   (\<not> pointer_channel w \<longrightarrow>
      SendPointerTypeToDart os pointerId pointerType pressure w =
        LogToFile os [Txt ''SendPointerTypeToDart: pointer_channel_ is null!''] w \<and>
      channel_out (SendPointerTypeToDart os pointerId pointerType pressure w) = channel_out w \<and>
      (g_log_initialized w \<and> g_log_file_is_open w \<longrightarrow>
         SendPointerTypeToDart os pointerId pointerType pressure w =
           w\<lparr>log_file := log_file w @
               [[Txt ''SendPointerTypeToDart: pointer_channel_ is null!'']]\<rparr>) \<and>
      (g_log_initialized w \<and> \<not> g_log_file_is_open w \<longrightarrow>
         SendPointerTypeToDart os pointerId pointerType pressure w = w)) \<and>
   (g_GetPointerType w \<and> pointer_channel w \<and>
    GetPointerType os (GET_POINTERID_WPARAM wparam) = Some t \<longrightarrow>
      (\<exists>m. channel_out (HandlePointerMessage os WM_POINTERDOWN wparam lparam w) =
              channel_out w @ [m] \<and>
           method_name m = ''onPointerTypeDetected'' \<and>
           dom (arguments m) =
             {EString ''pointerId'', EString ''pointerType'', EString ''pressure''} \<and>
           arguments m (EString ''pointerId'') =
             Some (EInt (sint (GET_POINTERID_WPARAM wparam))) \<and>
           arguments m (EString ''pointerType'') = Some (EInt (sint t))))"
proof -
  have shape: "method_name (classification_event i t p) = ''onPointerTypeDetected'' \<and>
      dom (arguments (classification_event i t p)) =
        {EString ''pointerId'', EString ''pointerType'', EString ''pressure''} \<and>
      arguments (classification_event i t p) (EString ''pointerId'') = Some (EInt (sint i)) \<and>
      arguments (classification_event i t p) (EString ''pointerType'') = Some (EInt (sint t)) \<and>
      arguments (classification_event i t p) (EString ''pressure'') = Some (EInt (sint p))"
    for i t p
    by (rule event_shape)
  have sent: "pointer_channel w \<longrightarrow>
      (\<exists>m. channel_out (SendPointerTypeToDart os pointerId pointerType pressure w) =
              channel_out w @ [m] \<and>
           method_name m = ''onPointerTypeDetected'' \<and>
           dom (arguments m) =
             {EString ''pointerId'', EString ''pointerType'', EString ''pressure''} \<and>
           arguments m (EString ''pointerId'') = Some (EInt (sint pointerId)) \<and>
           arguments m (EString ''pointerType'') = Some (EInt (sint pointerType)) \<and>
           arguments m (EString ''pressure'') = Some (EInt (sint pressure)))"
  proof
    assume "pointer_channel w"
    then have "channel_out (SendPointerTypeToDart os pointerId pointerType pressure w) =
        channel_out w @ [classification_event pointerId pointerType pressure]"
      by (simp add: Send_channel)
    with shape [of pointerId pointerType pressure]
    show "\<exists>m. channel_out (SendPointerTypeToDart os pointerId pointerType pressure w) =
              channel_out w @ [m] \<and>
           method_name m = ''onPointerTypeDetected'' \<and>
           dom (arguments m) =
             {EString ''pointerId'', EString ''pointerType'', EString ''pressure''} \<and>
           arguments m (EString ''pointerId'') = Some (EInt (sint pointerId)) \<and>
           arguments m (EString ''pointerType'') = Some (EInt (sint pointerType)) \<and>
           arguments m (EString ''pressure'') = Some (EInt (sint pressure))"
      by (intro exI [of _ "classification_event pointerId pointerType pressure"] conjI)
         (elim conjE, assumption)+
  qed
  have noop: "\<not> pointer_channel w \<longrightarrow>
      SendPointerTypeToDart os pointerId pointerType pressure w =
        LogToFile os [Txt ''SendPointerTypeToDart: pointer_channel_ is null!''] w \<and>
      channel_out (SendPointerTypeToDart os pointerId pointerType pressure w) = channel_out w \<and>
      (g_log_initialized w \<and> g_log_file_is_open w \<longrightarrow>
         SendPointerTypeToDart os pointerId pointerType pressure w =
           w\<lparr>log_file := log_file w @
               [[Txt ''SendPointerTypeToDart: pointer_channel_ is null!'']]\<rparr>) \<and>
      (g_log_initialized w \<and> \<not> g_log_file_is_open w \<longrightarrow>
         SendPointerTypeToDart os pointerId pointerType pressure w = w)"
  proof
    assume "\<not> pointer_channel w"
    then have eq: "SendPointerTypeToDart os pointerId pointerType pressure w =
        LogToFile os [Txt ''SendPointerTypeToDart: pointer_channel_ is null!''] w"
      by (simp add: SendPointerTypeToDart_def)
    show "SendPointerTypeToDart os pointerId pointerType pressure w =
        LogToFile os [Txt ''SendPointerTypeToDart: pointer_channel_ is null!''] w \<and>
      channel_out (SendPointerTypeToDart os pointerId pointerType pressure w) = channel_out w \<and>
      (g_log_initialized w \<and> g_log_file_is_open w \<longrightarrow>
         SendPointerTypeToDart os pointerId pointerType pressure w =
           w\<lparr>log_file := log_file w @
               [[Txt ''SendPointerTypeToDart: pointer_channel_ is null!'']]\<rparr>) \<and>
      (g_log_initialized w \<and> \<not> g_log_file_is_open w \<longrightarrow>
         SendPointerTypeToDart os pointerId pointerType pressure w = w)"
      unfolding eq by (simp add: LogToFile_fields LogToFile_open)
  qed
  have down: "g_GetPointerType w \<and> pointer_channel w \<and>
    GetPointerType os (GET_POINTERID_WPARAM wparam) = Some t \<longrightarrow>
      (\<exists>m. channel_out (HandlePointerMessage os WM_POINTERDOWN wparam lparam w) =
              channel_out w @ [m] \<and>
           method_name m = ''onPointerTypeDetected'' \<and>
           dom (arguments m) =
             {EString ''pointerId'', EString ''pointerType'', EString ''pressure''} \<and>
           arguments m (EString ''pointerId'') =
             Some (EInt (sint (GET_POINTERID_WPARAM wparam))) \<and>
           arguments m (EString ''pointerType'') = Some (EInt (sint t)))"
  proof
    let ?i = "GET_POINTERID_WPARAM wparam"
    assume "g_GetPointerType w \<and> pointer_channel w \<and> GetPointerType os ?i = Some t"
    then have "channel_out (HandlePointerMessage os WM_POINTERDOWN wparam lparam w) =
        channel_out w @ [classification_event ?i t (pen_pressure os w ?i t)]"
      by (simp add: HPM_channel emitted_def)
    with shape [of ?i t "pen_pressure os w ?i t"]
    show "\<exists>m. channel_out (HandlePointerMessage os WM_POINTERDOWN wparam lparam w) =
              channel_out w @ [m] \<and>
           method_name m = ''onPointerTypeDetected'' \<and>
           dom (arguments m) =
             {EString ''pointerId'', EString ''pointerType'', EString ''pressure''} \<and>
           arguments m (EString ''pointerId'') = Some (EInt (sint ?i)) \<and>
           arguments m (EString ''pointerType'') = Some (EInt (sint t))"
      by (intro exI [of _ "classification_event ?i t (pen_pressure os w ?i t)"] conjI)
         (elim conjE, assumption)+
  qed
  from sent noop down show ?thesis by (intro conjI)
qed

theorem C9_forwarder_sends_one_call_or_only_logs_witness:
  "SendPointerTypeToDart stylus_os 5 PT_PEN 600 constructed_window =
     constructed_window\<lparr>log_file := log_file constructed_window @
       [[Txt ''SendPointerTypeToDart: pointer_channel_ is null!'']]\<rparr> \<and>
   SendPointerTypeToDart unlogged_os 5 PT_PEN 600 unlogged_window = unlogged_window \<and>
   (\<exists>m. channel_out (SendPointerTypeToDart stylus_os 5 PT_PEN 600 ready_window) = [m] \<and>
        method_name m = ''onPointerTypeDetected'' \<and>
        arguments m (EString ''pressure'') = Some (EInt 600))"
proof -
  note early = C9_forwarder_sends_one_call_or_only_logs
    [where w = constructed_window and os = stylus_os and pointerId = 5 and
       pointerType = PT_PEN and pressure = 600]
  note silent = C9_forwarder_sends_one_call_or_only_logs
    [where w = unlogged_window and os = unlogged_os and pointerId = 5 and
       pointerType = PT_PEN and pressure = 600]
  note wired = C9_forwarder_sends_one_call_or_only_logs
    [where w = ready_window and os = stylus_os and pointerId = 5 and
       pointerType = PT_PEN and pressure = 600]
  have no_channel: "\<not> pointer_channel constructed_window" "\<not> pointer_channel unlogged_window"
    by (simp_all add: constructed_window_eq unlogged_window_eq)
  have open_log: "g_log_initialized constructed_window \<and> g_log_file_is_open constructed_window"
    by (simp add: constructed_window_eq)
  have no_log: "g_log_initialized unlogged_window \<and> \<not> g_log_file_is_open unlogged_window"
    by (simp add: unlogged_window_eq)
  have a: "SendPointerTypeToDart stylus_os 5 PT_PEN 600 constructed_window =
     constructed_window\<lparr>log_file := log_file constructed_window @
       [[Txt ''SendPointerTypeToDart: pointer_channel_ is null!'']]\<rparr>"
    by (rule early [THEN conjunct2, THEN conjunct1, THEN mp, OF no_channel(1),
          THEN conjunct2, THEN conjunct2, THEN conjunct1, THEN mp, OF open_log])
  have b: "SendPointerTypeToDart unlogged_os 5 PT_PEN 600 unlogged_window = unlogged_window"
    by (rule silent [THEN conjunct2, THEN conjunct1, THEN mp, OF no_channel(2),
          THEN conjunct2, THEN conjunct2, THEN conjunct2, THEN mp, OF no_log])
  have channel: "pointer_channel ready_window" and empty: "channel_out ready_window = []"
    by (simp_all add: ready_window_eq)
  from wired [THEN conjunct1, THEN mp, OF channel] obtain m where
    sent: "channel_out (SendPointerTypeToDart stylus_os 5 PT_PEN 600 ready_window) =
             channel_out ready_window @ [m]"
    and name: "method_name m = ''onPointerTypeDetected''"
    and pressure: "arguments m (EString ''pressure'') = Some (EInt (sint (600 :: u32)))"
    by (elim exE conjE)
  from sent have "channel_out (SendPointerTypeToDart stylus_os 5 PT_PEN 600 ready_window) = [m]"
    by (simp only: empty append_Nil)
  moreover from pressure have "arguments m (EString ''pressure'') = Some (EInt 600)"
    by simp
  ultimately have "\<exists>m. channel_out (SendPointerTypeToDart stylus_os 5 PT_PEN 600 ready_window) = [m] \<and>
        method_name m = ''onPointerTypeDetected'' \<and>
        arguments m (EString ''pressure'') = Some (EInt 600)"
    using name by (intro exI [of _ m] conjI)
  with a b show ?thesis by (intro conjI)
qed

text \<open>
  As it was stated, with the call without a channel always logged, C9 fails: in a
  process without \<^verbatim>\<open>USERPROFILE\<close> the forwarder called before the channel exists
  writes no line.
\<close>

theorem C9_counterexample:
  "\<not> (SendPointerTypeToDart unlogged_os 5 PT_PEN 600 unlogged_window =
        unlogged_window\<lparr>log_file := log_file unlogged_window @
          [[Txt ''SendPointerTypeToDart: pointer_channel_ is null!'']]\<rparr>)"
proof
  assume logged: "SendPointerTypeToDart unlogged_os 5 PT_PEN 600 unlogged_window =
      unlogged_window\<lparr>log_file := log_file unlogged_window @
        [[Txt ''SendPointerTypeToDart: pointer_channel_ is null!'']]\<rparr>"
  have "SendPointerTypeToDart unlogged_os 5 PT_PEN 600 unlogged_window =
      LogToFile unlogged_os [Txt ''SendPointerTypeToDart: pointer_channel_ is null!'']
        unlogged_window"
    by (simp add: SendPointerTypeToDart_def unlogged_window_eq)
  also have "\<dots> = unlogged_window"
    by (simp add: LogToFile_open unlogged_window_eq)
  finally have "log_file (SendPointerTypeToDart unlogged_os 5 PT_PEN 600 unlogged_window) = []"
    by (simp add: unlogged_window_eq)
  with logged show False
    by simp
qed

text \<open>
  \<^bold>\<open>C10\<close> fails for one message of the top-level handler: a font change that arrives
  while there is no controller (after the constructor and before \<^verbatim>\<open>OnCreate\<close> has
  made it) is handed to nobody, since line 289 dereferences the null controller that
  line 278 has just tested; a pointer-down in the same state reaches the base window.
\<close>

theorem C10_font_change_without_controller_reaches_nobody:
  "MessageHandler stylus_os 0x1A0 WM_FONTCHANGE 0 0 constructed_window =
     (constructed_window, [], Inl NullDereference) \<and>
   snd (MessageHandler stylus_os 0x1A0 WM_POINTERDOWN 5 0 constructed_window) =
     ([BaseWindow 0x1A0 WM_POINTERDOWN 5 0], Inr 0)"
proof
  have state: "top_level_switch stylus_os WM_FONTCHANGE 0 0 constructed_window =
      constructed_window"
    by (simp add: top_level_switch_def WM_defs)
  have "\<not> flutter_controller constructed_window"
    by (simp add: constructed_window_eq)
  then show "MessageHandler stylus_os 0x1A0 WM_FONTCHANGE 0 0 constructed_window =
      (constructed_window, [], Inl NullDereference)"
    by (simp add: MessageHandler_def state)
next
  have no_controller: "\<not> flutter_controller constructed_window"
    by (simp add: constructed_window_eq)
  have base: "Win32Window_MessageHandler stylus_os 0x1A0 WM_POINTERDOWN 5 0 = 0"
    by (simp add: stylus_os_def)
  from handlers_pass_on [of stylus_os "0x1A0" WM_POINTERDOWN 5 0 constructed_window,
      THEN conjunct2, THEN conjunct1]
  show "snd (MessageHandler stylus_os 0x1A0 WM_POINTERDOWN 5 0 constructed_window) =
      ([BaseWindow 0x1A0 WM_POINTERDOWN 5 0], Inr 0)"
    by (simp add: no_controller base not_font)
qed

end
